theory Spec2Isabelle
  imports Main "HOL-Library.AList"
begin

section \<open>The Evaluation Server of CMS: a shallow embedding of EvaluationServer.py\<close>

text \<open>
  The theory follows \<^verbatim>\<open>src/system/EvaluationServer.py\<close> class by class:
  \<^verbatim>\<open>JobQueue\<close> (prefix \<open>jq_\<close>), \<^verbatim>\<open>WorkerPool\<close> (prefix \<open>wp_\<close>),
  \<^verbatim>\<open>JobDispatcher\<close> (prefix \<open>jd_\<close>) and \<^verbatim>\<open>EvaluationServer\<close> (prefix \<open>es_\<close>).
  The prefixes keep apart the methods that the classes name alike
  (\<^verbatim>\<open>release_worker\<close>, \<^verbatim>\<open>check_timeout\<close>, \<^verbatim>\<open>add_worker\<close>, ...).

  Every method is a function from the object's state to the new state and a result.
  A Python exception is a value \<open>Inl e\<close> of the result; the state returned with it is
  the state at the moment the exception was raised, so that what a failing call has
  already changed stays visible. Each method runs under its object's lock, so the
  embedding takes a method as one atomic step; the locks themselves are not modelled.
  Wall-clock time (\<^verbatim>\<open>time.time()\<close>) is an integer argument \<open>now\<close>.
\<close>

subsection \<open>Exceptions\<close>

datatype error =
    LookupError | TypeError | ValueError | KeyError | RuntimeError
  | AssertionError | IndexError | AttributeError | ResourceNotFound | Blocked

text \<open>
  \<open>ResourceNotFound\<close> is what loading an unknown document raises. \<open>Blocked\<close> is not
  an exception: it marks a blocking \<^verbatim>\<open>Semaphore.acquire()\<close> on a semaphore whose value
  is 0, which in a single step never returns.
\<close>

subsection \<open>Submissions, jobs and queue entries\<close>

record submission =
  couch_id :: string
  timestamp :: int
  compilation_tentatives :: int
  evaluation_tentatives :: int
  compilation_outcome :: "string option"
  evaluation_outcome :: "string option"
  tokened :: bool

text \<open>A job is the couple \<^verbatim>\<open>(job_type, submission)\<close>; the bomb carries \<^verbatim>\<open>None\<close>.\<close>

type_synonym job = "string \<times> submission option"

text \<open>An element of the queue is \<^verbatim>\<open>(priority, timestamp, job)\<close>.\<close>

type_synonym entry = "int \<times> int \<times> job"

definition JOB_PRIORITY_EXTRA_HIGH :: int where "JOB_PRIORITY_EXTRA_HIGH = 0"

definition JOB_PRIORITY_HIGH :: int where "JOB_PRIORITY_HIGH = 1"

definition JOB_PRIORITY_MEDIUM :: int where "JOB_PRIORITY_MEDIUM = 2"

definition JOB_PRIORITY_LOW :: int where "JOB_PRIORITY_LOW = 3"

definition JOB_PRIORITY_EXTRA_LOW :: int where "JOB_PRIORITY_EXTRA_LOW = 4"

definition JOB_TYPE_COMPILATION :: string where "JOB_TYPE_COMPILATION = ''compile''"

definition JOB_TYPE_EVALUATION :: string where "JOB_TYPE_EVALUATION = ''evaluate''"

definition JOB_TYPE_BOMB :: string where "JOB_TYPE_BOMB = ''bomb''"

definition MAX_COMPILATION_TENTATIVES :: int where "MAX_COMPILATION_TENTATIVES = 3"

definition MAX_EVALUATION_TENTATIVES :: int where "MAX_EVALUATION_TENTATIVES = 3"

text \<open>
  Modelled from the spec: the class \<^verbatim>\<open>CouchObject\<close> of the submissions is not among the
  sources, so what \<^verbatim>\<open>==\<close> means on two submissions is taken from the specification:
  jobs are equal "by structural identity of (kind, submission_id)".
\<close>

definition submission_eq :: "submission option \<Rightarrow> submission option \<Rightarrow> bool" where
  "submission_eq a b = (map_option couch_id a = map_option couch_id b)"

definition job_eq :: "job \<Rightarrow> job \<Rightarrow> bool" where
  "job_eq a b = (fst a = fst b \<and> submission_eq (snd a) (snd b))"

subsection \<open>Python's order on queue entries\<close>

text \<open>
  \<^verbatim>\<open>heapq\<close> compares entries with \<^verbatim>\<open><\<close> on tuples: lexicographically, the priority
  first, then the timestamp, then the job (its type, a string, and its submission).
  The order between two submission objects is outside the sources; it is modelled
  as the order of their identifiers, \<^verbatim>\<open>None\<close> below every object as in Python 2.
\<close>

fun str_lt :: "string \<Rightarrow> string \<Rightarrow> bool" where
  "str_lt [] [] = False"
| "str_lt [] (y # ys) = True"
| "str_lt (x # xs) [] = False"
| "str_lt (x # xs) (y # ys) =
     ((of_char x :: nat) < of_char y \<or> (x = y \<and> str_lt xs ys))"

fun submission_lt :: "submission option \<Rightarrow> submission option \<Rightarrow> bool" where
  "submission_lt None None = False"
| "submission_lt None (Some b) = True"
| "submission_lt (Some a) None = False"
| "submission_lt (Some a) (Some b) = str_lt (couch_id a) (couch_id b)"

definition job_lt :: "job \<Rightarrow> job \<Rightarrow> bool" where
  "job_lt a b = (str_lt (fst a) (fst b) \<or> (fst a = fst b \<and> submission_lt (snd a) (snd b)))"

fun cmp_lt :: "entry \<Rightarrow> entry \<Rightarrow> bool" where
  "cmp_lt (p1, t1, j1) (p2, t2, j2) =
     (p1 < p2 \<or> (p1 = p2 \<and> (t1 < t2 \<or> (t1 = t2 \<and> job_lt j1 j2))))"

subsection \<open>The functions of \<^verbatim>\<open>heapq\<close> that the queue calls\<close>

text \<open>
  \<^verbatim>\<open>_siftdown(heap, startpos, pos)\<close>: the item at \<open>pos\<close> moves towards the root while
  it is smaller than its parent. The loop variable \<open>newitem\<close> is an argument.
\<close>

function siftdown :: "entry list \<Rightarrow> nat \<Rightarrow> nat \<Rightarrow> entry \<Rightarrow> entry list" where
  "siftdown heap startpos pos newitem =
     (if pos > startpos then
        (let parentpos = (pos - 1) div 2;
             parent = heap ! parentpos
         in if cmp_lt newitem parent
            then siftdown (heap[pos := parent]) startpos parentpos newitem
            else heap[pos := newitem])
      else heap[pos := newitem])"
  by pat_completeness auto

termination
  by (relation "measure (\<lambda>(heap, startpos, pos, newitem). pos)") auto

text \<open>
  \<^verbatim>\<open>_siftup(heap, pos)\<close>: the smaller child is moved up until a leaf is reached, then
  the item is sifted down from there. \<open>siftup_loop\<close> is the \<^verbatim>\<open>while\<close> loop and returns
  the heap with the final position.
\<close>

function siftup_loop :: "entry list \<Rightarrow> nat \<Rightarrow> entry list \<times> nat" where
  "siftup_loop heap pos =
     (let endpos = length heap;
          childpos = 2 * pos + 1
      in if childpos < endpos then
           (let rightpos = childpos + 1;
                childpos' = (if rightpos < endpos \<and> \<not> cmp_lt (heap ! childpos) (heap ! rightpos)
                             then rightpos else childpos)
            in siftup_loop (heap[pos := heap ! childpos']) childpos')
         else (heap, pos))"
  by pat_completeness auto

termination
  by (relation "measure (\<lambda>(heap, pos). length heap - pos)") (auto simp: Let_def)

definition siftup :: "entry list \<Rightarrow> nat \<Rightarrow> entry list" where
  "siftup heap pos =
     (let newitem = heap ! pos;
          (heap', pos') = siftup_loop heap pos
      in siftdown (heap'[pos' := newitem]) pos pos' newitem)"

definition heappush :: "entry list \<Rightarrow> entry \<Rightarrow> entry list" where
  "heappush heap item = siftdown (heap @ [item]) 0 (length heap) item"

text \<open>\<^verbatim>\<open>heappop\<close> raises \<^verbatim>\<open>IndexError\<close> on the empty list.\<close>

definition heappop :: "entry list \<Rightarrow> error + (entry \<times> entry list)" where
  "heappop heap =
     (if heap = [] then Inl IndexError
      else (let lastelt = last heap;
                heap' = butlast heap
            in if heap' \<noteq> [] then Inr (hd heap', siftup (heap'[0 := lastelt]) 0)
               else Inr (lastelt, heap')))"

definition heapify :: "entry list \<Rightarrow> entry list" where
  "heapify x = foldl siftup x (rev [0 ..< length x div 2])"

subsection \<open>Indexing a Python list\<close>

text \<open>
  A list subscript is an integer (negative ones count from the end, out of range raises
  \<^verbatim>\<open>IndexError\<close>); any other object as subscript raises \<^verbatim>\<open>TypeError\<close>
  ("list indices must be integers, not tuple").
\<close>

datatype subscript = IntIndex int | TupleIndex entry

fun list_getitem :: "entry list \<Rightarrow> subscript \<Rightarrow> error + entry" where
  "list_getitem xs (TupleIndex e) = Inl TypeError"
| "list_getitem xs (IntIndex i) =
     (if 0 \<le> i \<and> i < int (length xs) then Inr (xs ! nat i)
      else if i < 0 \<and> - int (length xs) \<le> i then Inr (xs ! nat (int (length xs) + i))
      else Inl IndexError)"

subsection \<open>JobQueue\<close>

record JobQueue =
  queue :: "entry list"
  jq_semaphore :: nat

definition jq_init :: JobQueue where
  "jq_init = \<lparr>queue = [], jq_semaphore = 0\<rparr>"

text \<open>
  \<^verbatim>\<open>push(job, priority, timestamp=None)\<close>: without a timestamp, the submission's own, and
  the current time when \<^verbatim>\<open>job[1]\<close> has none (the bomb's \<^verbatim>\<open>None\<close>).
\<close>

definition jq_push :: "int \<Rightarrow> JobQueue \<Rightarrow> job \<Rightarrow> int \<Rightarrow> int option \<Rightarrow> JobQueue" where
  "jq_push now q job priority ts =
     (let ts' = (case ts of
                   Some t \<Rightarrow> t
                 | None \<Rightarrow> (case snd job of Some s \<Rightarrow> timestamp s | None \<Rightarrow> now))
      in q\<lparr>queue := heappush (queue q) (priority, ts', job),
            jq_semaphore := jq_semaphore q + 1\<rparr>)"

definition jq_top :: "JobQueue \<Rightarrow> error + entry" where
  "jq_top q = (if length (queue q) > 0 then Inr (queue q ! 0) else Inl LookupError)"

definition jq_pop :: "JobQueue \<Rightarrow> JobQueue \<times> (error + entry)" where
  "jq_pop q =
     (if jq_semaphore q = 0 then (q, Inl Blocked)
      else (let q1 = q\<lparr>jq_semaphore := jq_semaphore q - 1\<rparr>
            in case heappop (queue q1) of
                 Inl e \<Rightarrow> (q1, Inl RuntimeError)
               | Inr (x, h) \<Rightarrow> (q1\<lparr>queue := h\<rparr>, Inr x)))"

text \<open>
  \<^verbatim>\<open>search(job)\<close>: the loop \<^verbatim>\<open>for i in self.queue\<close> binds \<open>i\<close> to the entries themselves,
  and \<^verbatim>\<open>self.queue[i]\<close> uses that entry as the subscript. The second argument of
  \<open>search_loop\<close> is what is left to iterate.
\<close>

fun search_loop :: "entry list \<Rightarrow> entry list \<Rightarrow> job \<Rightarrow> error + entry" where
  "search_loop q [] job = Inl LookupError"
| "search_loop q (i # rest) job =
     (case list_getitem q (TupleIndex i) of
        Inl e \<Rightarrow> Inl e
      | Inr x \<Rightarrow> if job_eq (snd (snd x)) job then Inr i else search_loop q rest job)"

definition jq_search :: "JobQueue \<Rightarrow> job \<Rightarrow> error + entry" where
  "jq_search q job = search_loop (queue q) (queue q) job"

text \<open>
  \<^verbatim>\<open>set_priority(job, priority)\<close>: the statement \<^verbatim>\<open>self.queue[pos][0] == priority\<close> is a
  comparison whose value is dropped; only the subscript can have an effect (it can
  raise). Then the list is heapified.
\<close>

definition jq_set_priority :: "JobQueue \<Rightarrow> job \<Rightarrow> int \<Rightarrow> JobQueue \<times> (error + unit)" where
  "jq_set_priority q job priority =
     (case jq_search q job of
        Inl e \<Rightarrow> (q, Inl e)
      | Inr pos \<Rightarrow>
          (case list_getitem (queue q) (TupleIndex pos) of
             Inl e \<Rightarrow> (q, Inl e)
           | Inr x \<Rightarrow> (q\<lparr>queue := heapify (queue q)\<rparr>, Inr ())))"

definition jq_length :: "JobQueue \<Rightarrow> nat" where
  "jq_length q = length (queue q)"

definition jq_empty :: "JobQueue \<Rightarrow> bool" where
  "jq_empty q = (jq_length q = 0)"

subsection \<open>WorkerPool\<close>

text \<open>
  The dictionary \<^verbatim>\<open>workers\<close> maps a worker to \<^verbatim>\<open>None\<close> (inactive), to \<^verbatim>\<open>"disabled"\<close> or to
  the job it works on. It is an association list, since \<^verbatim>\<open>find_worker\<close> and
  \<^verbatim>\<open>check_timeout\<close> iterate over it; the order of the list stands for the order in
  which Python iterates the dictionary. The other five dictionaries are only looked up
  by key and are maps.
\<close>

datatype worker_slot = WORKER_INACTIVE | WORKER_DISABLED | Job job

fun slot_eq :: "worker_slot \<Rightarrow> worker_slot \<Rightarrow> bool" where
  "slot_eq WORKER_INACTIVE s = (s = WORKER_INACTIVE)"
| "slot_eq WORKER_DISABLED s = (s = WORKER_DISABLED)"
| "slot_eq (Job a) s = (case s of Job b \<Rightarrow> job_eq a b | _ \<Rightarrow> False)"

record WorkerPool =
  workers :: "(int \<times> worker_slot) list"
  wp_semaphore :: nat
  start_time :: "int \<rightharpoonup> int option"
  address :: "int \<rightharpoonup> string \<times> int"
  error_count :: "int \<rightharpoonup> int"
  side_data :: "int \<rightharpoonup> (int \<times> int) option"
  schedule_disabling :: "int \<rightharpoonup> bool"

definition wp_init :: WorkerPool where
  "wp_init = \<lparr>workers = [], wp_semaphore = 0, start_time = Map.empty, address = Map.empty,
              error_count = Map.empty, side_data = Map.empty, schedule_disabling = Map.empty\<rparr>"

fun find_loop :: "(int \<times> worker_slot) list \<Rightarrow> worker_slot \<Rightarrow> error + int" where
  "find_loop [] job = Inl LookupError"
| "find_loop ((worker, workerJob) # rest) job =
     (if slot_eq workerJob job then Inr worker else find_loop rest job)"

definition wp_find_worker :: "WorkerPool \<Rightarrow> worker_slot \<Rightarrow> error + int" where
  "wp_find_worker p job = find_loop (workers p) job"

text \<open>
  \<^verbatim>\<open>acquire_worker(job, blocking, side_data)\<close>. A non-blocking acquire of a semaphore at
  0 returns \<^verbatim>\<open>None\<close>; a blocking one does not return.
\<close>

definition wp_acquire_worker ::
  "int \<Rightarrow> WorkerPool \<Rightarrow> job \<Rightarrow> bool \<Rightarrow> (int \<times> int) option \<Rightarrow> WorkerPool \<times> (error + int option)" where
  "wp_acquire_worker now p job blocking sd =
     (if wp_semaphore p = 0 then (p, if blocking then Inl Blocked else Inr None)
      else (let p1 = p\<lparr>wp_semaphore := wp_semaphore p - 1\<rparr>
            in case wp_find_worker p1 WORKER_INACTIVE of
                 Inl e \<Rightarrow> (p1, Inl (if e = LookupError then RuntimeError else e))
               | Inr worker \<Rightarrow>
                   (p1\<lparr>workers := AList.update worker (Job job) (workers p1),
                       start_time := (start_time p1)(worker \<mapsto> Some now),
                       side_data := (side_data p1)(worker \<mapsto> sd)\<rparr>,
                    Inr (Some worker))))"

definition wp_release_worker :: "WorkerPool \<Rightarrow> int \<Rightarrow> WorkerPool \<times> (error + (int \<times> int) option)" where
  "wp_release_worker p worker =
     (case map_of (workers p) worker of
        None \<Rightarrow> (p, Inl KeyError)
      | Some WORKER_INACTIVE \<Rightarrow> (p, Inl ValueError)
      | Some WORKER_DISABLED \<Rightarrow> (p, Inl ValueError)
      | Some (Job j) \<Rightarrow>
          (let p1 = p\<lparr>start_time := (start_time p)(worker \<mapsto> None)\<rparr>
           in case side_data p1 worker of
                None \<Rightarrow> (p1, Inl KeyError)
              | Some sd \<Rightarrow>
                  (let p2 = p1\<lparr>side_data := (side_data p1)(worker \<mapsto> None)\<rparr>
                   in case schedule_disabling p2 worker of
                        None \<Rightarrow> (p2, Inl KeyError)
                      | Some True \<Rightarrow>
                          (p2\<lparr>workers := AList.update worker WORKER_DISABLED (workers p2),
                              schedule_disabling := (schedule_disabling p2)(worker \<mapsto> False)\<rparr>,
                           Inr sd)
                      | Some False \<Rightarrow>
                          (p2\<lparr>workers := AList.update worker WORKER_INACTIVE (workers p2),
                              wp_semaphore := wp_semaphore p2 + 1\<rparr>,
                           Inr sd))))"

definition wp_disable_worker :: "WorkerPool \<Rightarrow> int \<Rightarrow> WorkerPool \<times> (error + unit)" where
  "wp_disable_worker p n =
     (if wp_semaphore p = 0 then (p, Inl ValueError)
      else (let p1 = p\<lparr>wp_semaphore := wp_semaphore p - 1\<rparr>
            in case map_of (workers p1) n of
                 None \<Rightarrow> (p1, Inl KeyError)
               | Some s \<Rightarrow>
                   if s \<noteq> WORKER_INACTIVE
                   then (p1\<lparr>wp_semaphore := wp_semaphore p1 + 1\<rparr>, Inl ValueError)
                   else (p1\<lparr>workers := AList.update n WORKER_DISABLED (workers p1)\<rparr>, Inr ())))"

definition wp_enable_worker :: "WorkerPool \<Rightarrow> int \<Rightarrow> WorkerPool \<times> (error + unit)" where
  "wp_enable_worker p n =
     (case map_of (workers p) n of
        None \<Rightarrow> (p, Inl ValueError)
      | Some s \<Rightarrow>
          if s \<noteq> WORKER_DISABLED then (p, Inl ValueError)
          else (p\<lparr>workers := AList.update n WORKER_INACTIVE (workers p),
                  wp_semaphore := wp_semaphore p + 1\<rparr>, Inr ()))"

definition wp_add_worker :: "WorkerPool \<Rightarrow> int \<Rightarrow> string \<Rightarrow> int \<Rightarrow> WorkerPool \<times> (error + unit)" where
  "wp_add_worker p n host port =
     (if map_of (workers p) n \<noteq> None then (p, Inl ValueError)
      else (p\<lparr>workers := AList.update n WORKER_INACTIVE (workers p),
              start_time := (start_time p)(n \<mapsto> None),
              address := (address p)(n \<mapsto> (host, port)),
              error_count := (error_count p)(n \<mapsto> 0),
              schedule_disabling := (schedule_disabling p)(n \<mapsto> False),
              side_data := (side_data p)(n \<mapsto> None),
              wp_semaphore := wp_semaphore p + 1\<rparr>, Inr ()))"

text \<open>\<^verbatim>\<open>del d[n]\<close> raises \<^verbatim>\<open>KeyError\<close> when the key is missing; the six deletions run in turn.\<close>

definition wp_del_worker :: "WorkerPool \<Rightarrow> int \<Rightarrow> WorkerPool \<times> (error + unit)" where
  "wp_del_worker p n =
     (case map_of (workers p) n of
        None \<Rightarrow> (p, Inl ValueError)
      | Some s \<Rightarrow>
          if s \<noteq> WORKER_DISABLED then (p, Inl ValueError)
          else (let p1 = p\<lparr>workers := AList.delete n (workers p)\<rparr> in
                if start_time p1 n = None then (p1, Inl KeyError) else
                let p2 = p1\<lparr>start_time := (start_time p1)(n := None)\<rparr> in
                if address p2 n = None then (p2, Inl KeyError) else
                let p3 = p2\<lparr>address := (address p2)(n := None)\<rparr> in
                if error_count p3 n = None then (p3, Inl KeyError) else
                let p4 = p3\<lparr>error_count := (error_count p3)(n := None)\<rparr> in
                if schedule_disabling p4 n = None then (p4, Inl KeyError) else
                let p5 = p4\<lparr>schedule_disabling := (schedule_disabling p4)(n := None)\<rparr> in
                if side_data p5 n = None then (p5, Inl KeyError) else
                (p5\<lparr>side_data := (side_data p5)(n := None)\<rparr>, Inr ())))"

text \<open>
  \<^verbatim>\<open>working_workers()\<close> iterates \<^verbatim>\<open>self.workers.values\<close>, written without the call:
  the object iterated is the bound method, not the list it would return. A Python
  object here is a list or a bound method (carrying what a call would return);
  iterating a bound method raises \<^verbatim>\<open>TypeError\<close>.
\<close>

datatype 'v pyobject = PyList "'v list" | PyBoundMethod "'v list"

definition dict_values_attr :: "('k \<times> 'v) list \<Rightarrow> 'v pyobject" where
  "dict_values_attr d = PyBoundMethod (map snd d)"

fun py_iter :: "'v pyobject \<Rightarrow> error + 'v list" where
  "py_iter (PyList xs) = Inr xs"
| "py_iter (PyBoundMethod r) = Inl TypeError"

definition wp_working_workers :: "WorkerPool \<Rightarrow> error + nat" where
  "wp_working_workers p =
     (case py_iter (dict_values_attr (workers p)) of
        Inl e \<Rightarrow> Inl e
      | Inr xs \<Rightarrow>
          Inr (length (filter (\<lambda>x. x \<noteq> WORKER_INACTIVE \<and> x \<noteq> WORKER_DISABLED) xs)))"

text \<open>Outbound calls to a worker, with the address they go to.\<close>

datatype rpc =
    RPC_compile "string \<times> int" string
  | RPC_evaluate "string \<times> int" string
  | RPC_shut_down "string \<times> int"

text \<open>
  \<^verbatim>\<open>check_timeout()\<close>: the loop over the workers. The arguments are
  \<^verbatim>\<open>Configuration.worker_timeout\<close>, the time, the workers left to visit, the pool, the
  lost jobs so far and the calls made so far. The assertion and the unpacking of
  \<^verbatim>\<open>side_data\<close> can raise; what \<^verbatim>\<open>shut_down\<close> raises is caught and dropped, so the call
  is only recorded.
\<close>

fun check_timeout_loop ::
  "int \<Rightarrow> int \<Rightarrow> int list \<Rightarrow> WorkerPool \<Rightarrow> entry list \<Rightarrow> rpc list
     \<Rightarrow> WorkerPool \<times> rpc list \<times> (error + entry list)" where
  "check_timeout_loop worker_timeout now [] p lost_jobs calls = (p, calls, Inr lost_jobs)"
| "check_timeout_loop worker_timeout now (worker # rest) p lost_jobs calls =
     (case start_time p worker of
        None \<Rightarrow> (p, calls, Inl KeyError)
      | Some None \<Rightarrow> check_timeout_loop worker_timeout now rest p lost_jobs calls
      | Some (Some st) \<Rightarrow>
          (let active_for = now - st in
           if active_for > worker_timeout then
             (case address p worker of
                None \<Rightarrow> (p, calls, Inl KeyError)
              | Some hp \<Rightarrow>
                  (case map_of (workers p) worker of
                     None \<Rightarrow> (p, calls, Inl KeyError)
                   | Some WORKER_INACTIVE \<Rightarrow> (p, calls, Inl AssertionError)
                   | Some WORKER_DISABLED \<Rightarrow> (p, calls, Inl AssertionError)
                   | Some (Job job) \<Rightarrow>
                       (case side_data p worker of
                          None \<Rightarrow> (p, calls, Inl KeyError)
                        | Some None \<Rightarrow> (p, calls, Inl TypeError)
                        | Some (Some (priority, ts)) \<Rightarrow>
                            (let lost_jobs' = lost_jobs @ [(priority, ts, job)];
                                 p1 = p\<lparr>schedule_disabling := (schedule_disabling p)(worker \<mapsto> True)\<rparr>
                             in case wp_release_worker p1 worker of
                                  (p2, Inl e) \<Rightarrow> (p2, calls, Inl e)
                                | (p2, Inr sd) \<Rightarrow>
                                    check_timeout_loop worker_timeout now rest p2 lost_jobs'
                                      (calls @ [RPC_shut_down hp])))))
           else check_timeout_loop worker_timeout now rest p lost_jobs calls))"

definition wp_check_timeout ::
  "int \<Rightarrow> int \<Rightarrow> WorkerPool \<Rightarrow> WorkerPool \<times> rpc list \<times> (error + entry list)" where
  "wp_check_timeout worker_timeout now p =
     check_timeout_loop worker_timeout now (map fst (workers p)) p [] []"

subsection \<open>JobDispatcher\<close>

text \<open>
  \<open>touched\<close> is the \<^verbatim>\<open>threading.Event\<close> (set or cleared). \<open>rpc_log\<close> is not a field of
  the class: it records, oldest first, the calls made to workers, so that statements
  about them can be written down. Whether a call to a worker raises is not decided by
  the program; the functions that call workers take a predicate \<open>raises\<close> that says so.
\<close>

record JobDispatcher =
  jd_queue :: JobQueue
  jd_workers :: WorkerPool
  bomb_primed :: bool
  touched :: bool
  rpc_log :: "rpc list"

datatype action = ACTION_OK | ACTION_FAIL | ACTION_REQUEUE

text \<open>
  The constructor adds the workers of \<^verbatim>\<open>Configuration.workers\<close> under their indices.
  The indices are distinct and the pool starts empty, so no \<^verbatim>\<open>add_worker\<close> raises.
\<close>

definition jd_init :: "(string \<times> int) list \<Rightarrow> JobDispatcher" where
  "jd_init config_workers =
     \<lparr>jd_queue = jq_init,
      jd_workers = fold (\<lambda>(i, w) p. fst (wp_add_worker p (int i) (fst w) (snd w)))
                        (enumerate 0 config_workers) wp_init,
      bomb_primed = False, touched = False, rpc_log = []\<rparr>"

definition jd_queue_push :: "int \<Rightarrow> JobDispatcher \<Rightarrow> job \<Rightarrow> int \<Rightarrow> int option \<Rightarrow> JobDispatcher" where
  "jd_queue_push now d job priority ts =
     d\<lparr>jd_queue := jq_push now (jd_queue d) job priority ts, touched := True\<rparr>"

definition jd_queue_set_priority :: "JobDispatcher \<Rightarrow> job \<Rightarrow> int \<Rightarrow> JobDispatcher \<times> (error + unit)" where
  "jd_queue_set_priority d job priority =
     (case jq_set_priority (jd_queue d) job priority of
        (q, Inl e) \<Rightarrow> (d\<lparr>jd_queue := q\<rparr>, Inl e)
      | (q, Inr u) \<Rightarrow> (d\<lparr>jd_queue := q, touched := True\<rparr>, Inr ()))"

definition jd_release_worker :: "JobDispatcher \<Rightarrow> int \<Rightarrow> JobDispatcher \<times> (error + (int \<times> int) option)" where
  "jd_release_worker d worker =
     (case wp_release_worker (jd_workers d) worker of
        (p, Inl e) \<Rightarrow> (d\<lparr>jd_workers := p\<rparr>, Inl e)
      | (p, Inr sd) \<Rightarrow> (d\<lparr>jd_workers := p, touched := True\<rparr>, Inr sd))"

definition jd_find_worker :: "JobDispatcher \<Rightarrow> job \<Rightarrow> error + int" where
  "jd_find_worker d job = wp_find_worker (jd_workers d) (Job job)"

definition jd_enable_worker :: "JobDispatcher \<Rightarrow> int \<Rightarrow> JobDispatcher \<times> (error + unit)" where
  "jd_enable_worker d n =
     (case wp_enable_worker (jd_workers d) n of
        (p, Inl e) \<Rightarrow> (d\<lparr>jd_workers := p\<rparr>, Inl e)
      | (p, Inr u) \<Rightarrow> (d\<lparr>jd_workers := p, touched := True\<rparr>, Inr ()))"

definition jd_add_worker :: "JobDispatcher \<Rightarrow> int \<Rightarrow> string \<Rightarrow> int \<Rightarrow> JobDispatcher \<times> (error + unit)" where
  "jd_add_worker d n addr port =
     (case wp_add_worker (jd_workers d) n addr port of
        (p, Inl e) \<Rightarrow> (d\<lparr>jd_workers := p\<rparr>, Inl e)
      | (p, Inr u) \<Rightarrow> (d\<lparr>jd_workers := p, touched := True\<rparr>, Inr ()))"

text \<open>\<^verbatim>\<open>del_worker\<close> ends with the \<^verbatim>\<open>with\<close> block: there is no \<^verbatim>\<open>self.touched.set()\<close> after it.\<close>

definition jd_del_worker :: "JobDispatcher \<Rightarrow> int \<Rightarrow> JobDispatcher \<times> (error + unit)" where
  "jd_del_worker d n =
     (case wp_del_worker (jd_workers d) n of
        (p, Inl e) \<Rightarrow> (d\<lparr>jd_workers := p\<rparr>, Inl e)
      | (p, Inr u) \<Rightarrow> (d\<lparr>jd_workers := p\<rparr>, Inr ()))"

text \<open>
  \<^verbatim>\<open>check_timeout()\<close> of the dispatcher pushes the lost jobs back. The log line of each
  reads \<^verbatim>\<open>job[1].couch_id\<close>, which raises on a job without submission.
\<close>

fun requeue_loop :: "int \<Rightarrow> JobDispatcher \<Rightarrow> entry list \<Rightarrow> JobDispatcher \<times> (error + unit)" where
  "requeue_loop now d [] = (d, Inr ())"
| "requeue_loop now d ((priority, ts, job) # rest) =
     (case snd job of
        None \<Rightarrow> (d, Inl AttributeError)
      | Some s \<Rightarrow> requeue_loop now (jd_queue_push now d job priority (Some ts)) rest)"

definition jd_check_timeout :: "int \<Rightarrow> int \<Rightarrow> JobDispatcher \<Rightarrow> JobDispatcher \<times> (error + unit)" where
  "jd_check_timeout worker_timeout now d =
     (case wp_check_timeout worker_timeout now (jd_workers d) of
        (p, calls, Inl e) \<Rightarrow> (d\<lparr>jd_workers := p, rpc_log := rpc_log d @ calls\<rparr>, Inl e)
      | (p, calls, Inr lost_jobs) \<Rightarrow>
          requeue_loop now (d\<lparr>jd_workers := p, rpc_log := rpc_log d @ calls\<rparr>) lost_jobs)"

text \<open>
  \<^verbatim>\<open>check_action(priority, timestamp, job)\<close>. After a worker is acquired the method reads
  its address and the submission's identifier for the log line, then makes the call
  inside \<^verbatim>\<open>try\<close>; the \<^verbatim>\<open>except\<close> branch counts the error, releases the worker and
  disables it.
\<close>

definition dispatch_rpc :: "string \<Rightarrow> string \<times> int \<Rightarrow> string \<Rightarrow> rpc list" where
  "dispatch_rpc action hp cid =
     (if action = JOB_TYPE_COMPILATION then [RPC_compile hp cid]
      else if action = JOB_TYPE_EVALUATION then [RPC_evaluate hp cid]
      else [])"

definition jd_check_action ::
  "(rpc \<Rightarrow> bool) \<Rightarrow> int \<Rightarrow> JobDispatcher \<Rightarrow> int \<Rightarrow> int \<Rightarrow> job \<Rightarrow> JobDispatcher \<times> (error + action)" where
  "jd_check_action raises now d priority ts job =
     (let action = fst job in
      if action = JOB_TYPE_BOMB then
        (if \<not> bomb_primed d then (d\<lparr>bomb_primed := True, touched := True\<rparr>, Inr ACTION_FAIL)
         else (d, Inr ACTION_FAIL))
      else
        (case wp_acquire_worker now (jd_workers d) job False (Some (priority, ts)) of
           (p1, Inl e) \<Rightarrow> (d\<lparr>jd_workers := p1\<rparr>, Inl e)
         | (p1, Inr None) \<Rightarrow> (d\<lparr>jd_workers := p1\<rparr>, Inr ACTION_FAIL)
         | (p1, Inr (Some worker)) \<Rightarrow>
             (let d1 = d\<lparr>jd_workers := p1\<rparr> in
              case address p1 worker of
                None \<Rightarrow> (d1, Inl KeyError)
              | Some hp \<Rightarrow>
                  (case snd job of
                     None \<Rightarrow> (d1, Inl AttributeError)
                   | Some submission \<Rightarrow>
                       (let calls = dispatch_rpc action hp (couch_id submission);
                            d2 = d1\<lparr>rpc_log := rpc_log d1 @ calls\<rparr>
                        in if list_ex raises calls then
                             (case error_count p1 worker of
                                None \<Rightarrow> (d2, Inl KeyError)
                              | Some n \<Rightarrow>
                                  (let p2 = p1\<lparr>error_count := (error_count p1)(worker \<mapsto> n + 1)\<rparr>
                                   in case wp_release_worker p2 worker of
                                        (p3, Inl e) \<Rightarrow> (d2\<lparr>jd_workers := p3\<rparr>, Inl e)
                                      | (p3, Inr sd) \<Rightarrow>
                                          (case wp_disable_worker p3 worker of
                                             (p4, Inl e) \<Rightarrow> (d2\<lparr>jd_workers := p4\<rparr>, Inl e)
                                           | (p4, Inr u) \<Rightarrow>
                                               (d2\<lparr>jd_workers := p4\<rparr>, Inr ACTION_REQUEUE))))
                           else (d2, Inr ACTION_OK))))))"

text \<open>
  \<^verbatim>\<open>process_queue()\<close>: the loop \<^verbatim>\<open>while True\<close>. An empty queue ends it, as does
  \<^verbatim>\<open>ACTION_FAIL\<close>; after \<^verbatim>\<open>ACTION_OK\<close> the entry is popped, after \<^verbatim>\<open>ACTION_REQUEUE\<close>
  nothing is done, and the loop goes on. Every round that goes on has taken one
  permit of the pool's semaphore, which is why the loop ends.
\<close>

function jd_process_queue ::
  "(rpc \<Rightarrow> bool) \<Rightarrow> int \<Rightarrow> JobDispatcher \<Rightarrow> JobDispatcher \<times> (error + unit)" where
  "jd_process_queue raises now d =
     (case jq_top (jd_queue d) of
        Inl e \<Rightarrow> (d, Inr ())
      | Inr (priority, ts, job) \<Rightarrow>
          (case jd_check_action raises now d priority ts job of
             (d1, Inl e) \<Rightarrow> (d1, Inl e)
           | (d1, Inr ACTION_OK) \<Rightarrow>
               (case jq_pop (jd_queue d1) of
                  (q1, Inl e) \<Rightarrow> (d1\<lparr>jd_queue := q1\<rparr>, Inl e)
                | (q1, Inr x) \<Rightarrow> jd_process_queue raises now (d1\<lparr>jd_queue := q1\<rparr>))
           | (d1, Inr ACTION_FAIL) \<Rightarrow> (d1, Inr ())
           | (d1, Inr ACTION_REQUEUE) \<Rightarrow> jd_process_queue raises now d1))"
  by pat_completeness auto

termination
  apply (relation "measure (\<lambda>(raises, now, d). wp_semaphore (jd_workers d))")
    apply simp
   apply (auto simp: jd_check_action_def wp_acquire_worker_def wp_release_worker_def
      wp_disable_worker_def Let_def
      split: if_splits prod.splits sum.splits option.splits worker_slot.splits bool.splits)
  done

text \<open>
  One round of the loop of \<^verbatim>\<open>run()\<close>: wait for \<open>touched\<close> (a wait on a cleared event
  does not return in one step), clear it, then either return (\<open>KABOOM\<close>) or process the
  queue and loop (\<open>LOOP\<close>). \<^verbatim>\<open>and\<close> evaluates \<^verbatim>\<open>working_workers()\<close> only when the bomb is
  primed.
\<close>

datatype run_result = KABOOM | LOOP

definition jd_run_iteration ::
  "(rpc \<Rightarrow> bool) \<Rightarrow> int \<Rightarrow> JobDispatcher \<Rightarrow> JobDispatcher \<times> (error + run_result)" where
  "jd_run_iteration raises now d =
     (if \<not> touched d then (d, Inl Blocked)
      else (let d1 = d\<lparr>touched := False\<rparr>;
                explode = (if bomb_primed d1
                           then (case wp_working_workers (jd_workers d1) of
                                   Inl e \<Rightarrow> Inl e
                                 | Inr n \<Rightarrow> Inr (n = 0))
                           else Inr False)
            in case explode of
                 Inl e \<Rightarrow> (d1, Inl e)
               | Inr True \<Rightarrow> (d1, Inr KABOOM)
               | Inr False \<Rightarrow>
                   (case jd_process_queue raises now d1 of
                      (d2, Inl e) \<Rightarrow> (d2, Inl e)
                    | (d2, Inr u) \<Rightarrow> (d2, Inr LOOP))))"

subsection \<open>EvaluationServer\<close>

text \<open>
  Modelled from the spec: the document store (\<^verbatim>\<open>CouchObject.from_couch\<close>, \<^verbatim>\<open>to_couch\<close>,
  \<^verbatim>\<open>refresh\<close>) is not among the sources. Following the specification it is a map from
  identifiers to documents, "accessed via load(id), save(obj) with
  optimistic-concurrency conflict retry, refresh(obj)". Loading an unknown identifier
  raises. The scorer and the ranking view are opaque; the calls to them are recorded
  in \<open>es_events\<close>, together with the one log line the claims speak of ("Maximum
  tentatives reached"). The other log lines change nothing and are left out.
\<close>

datatype event =
    Scorer_add_token string
  | Scorer_add_submission string
  | Update_ranking_view
  | Log_maximum_tentatives string string

record EvaluationServer =
  jd :: JobDispatcher
  couch :: "string \<rightharpoonup> submission"
  es_events :: "event list"

definition from_couch :: "(string \<rightharpoonup> submission) \<Rightarrow> string \<Rightarrow> error + submission" where
  "from_couch db submission_id =
     (case db submission_id of None \<Rightarrow> Inl ResourceNotFound | Some s \<Rightarrow> Inr s)"

text \<open>
  The retry loop around \<^verbatim>\<open>to_couch()\<close>. The second argument lists the documents that
  \<^verbatim>\<open>refresh()\<close> loads after each \<^verbatim>\<open>ResourceConflict\<close>, in order; when it is used up the
  save goes through. Each round increments the counter first, so the increment made
  before a conflict is lost with the refreshed document.
\<close>

fun save_compilation_tentative :: "submission \<Rightarrow> submission list \<Rightarrow> submission" where
  "save_compilation_tentative s [] = s\<lparr>compilation_tentatives := compilation_tentatives s + 1\<rparr>"
| "save_compilation_tentative s (c # conflicts) = save_compilation_tentative c conflicts"

fun save_evaluation_tentative :: "submission \<Rightarrow> submission list \<Rightarrow> submission" where
  "save_evaluation_tentative s [] = s\<lparr>evaluation_tentatives := evaluation_tentatives s + 1\<rparr>"
| "save_evaluation_tentative s (c # conflicts) = save_evaluation_tentative c conflicts"

definition es_use_token :: "EvaluationServer \<Rightarrow> string \<Rightarrow> EvaluationServer \<times> (error + bool)" where
  "es_use_token es submission_id =
     (case from_couch (couch es) submission_id of
        Inl e \<Rightarrow> (es, Inl e)
      | Inr submission \<Rightarrow>
          (let es1 = (if evaluation_outcome submission \<noteq> None
                      then es\<lparr>es_events := es_events es @ [Scorer_add_token (couch_id submission)]\<rparr>
                      else es)
           in case jd_queue_set_priority (jd es1) (JOB_TYPE_EVALUATION, Some submission)
                     JOB_PRIORITY_MEDIUM of
                (d, Inl e) \<Rightarrow> (es1\<lparr>jd := d\<rparr>, Inl e)
              | (d, Inr u) \<Rightarrow> (es1\<lparr>jd := d\<rparr>, Inr True)))"

definition es_add_job :: "int \<Rightarrow> EvaluationServer \<Rightarrow> string \<Rightarrow> EvaluationServer \<times> (error + bool)" where
  "es_add_job now es submission_id =
     (case from_couch (couch es) submission_id of
        Inl e \<Rightarrow> (es, Inl e)
      | Inr submission \<Rightarrow>
          (es\<lparr>jd := jd_queue_push now (jd es) (JOB_TYPE_COMPILATION, Some submission)
                      JOB_PRIORITY_HIGH None\<rparr>, Inr True))"

text \<open>
  \<^verbatim>\<open>action_finished(job)\<close>: finds the worker, reads its start time (a subtraction from
  \<^verbatim>\<open>None\<close> raises), its address and the submission's identifier for the log line, and
  releases the worker.
\<close>

definition es_action_finished ::
  "EvaluationServer \<Rightarrow> job \<Rightarrow> EvaluationServer \<times> (error + (int \<times> int) option)" where
  "es_action_finished es job =
     (case jd_find_worker (jd es) job of
        Inl e \<Rightarrow> (es, Inl e)
      | Inr worker \<Rightarrow>
          (case start_time (jd_workers (jd es)) worker of
             None \<Rightarrow> (es, Inl KeyError)
           | Some None \<Rightarrow> (es, Inl TypeError)
           | Some (Some st) \<Rightarrow>
               (case address (jd_workers (jd es)) worker of
                  None \<Rightarrow> (es, Inl KeyError)
                | Some hp \<Rightarrow>
                    (case snd job of
                       None \<Rightarrow> (es, Inl AttributeError)
                     | Some s \<Rightarrow>
                         (case jd_release_worker (jd es) worker of
                            (d, Inl e) \<Rightarrow> (es\<lparr>jd := d\<rparr>, Inl e)
                          | (d, Inr sd) \<Rightarrow> (es\<lparr>jd := d\<rparr>, Inr sd))))))"

definition es_compilation_finished ::
  "int \<Rightarrow> submission list \<Rightarrow> EvaluationServer \<Rightarrow> bool \<Rightarrow> string \<Rightarrow> EvaluationServer \<times> (error + bool)" where
  "es_compilation_finished now conflicts es success submission_id =
     (case from_couch (couch es) submission_id of
        Inl e \<Rightarrow> (es, Inl e)
      | Inr loaded \<Rightarrow>
          (let submission = save_compilation_tentative loaded conflicts;
               es1 = es\<lparr>couch := (couch es)(couch_id submission \<mapsto> submission)\<rparr>
           in case es_action_finished es1 (JOB_TYPE_COMPILATION, Some submission) of
                (es2, Inl e) \<Rightarrow> (es2, Inl e)
              | (es2, Inr sd) \<Rightarrow>
                  if success \<and> compilation_outcome submission = Some ''ok'' then
                    (let priority = (if tokened submission then JOB_PRIORITY_MEDIUM
                                     else JOB_PRIORITY_LOW)
                     in (es2\<lparr>jd := jd_queue_push now (jd es2)
                                      (JOB_TYPE_EVALUATION, Some submission) priority None\<rparr>,
                         Inr True))
                  else if success \<and> compilation_outcome submission = Some ''fail'' then
                    (es2, Inr True)
                  else if compilation_tentatives submission > MAX_COMPILATION_TENTATIVES then
                    (es2\<lparr>es_events := es_events es2 @
                            [Log_maximum_tentatives JOB_TYPE_COMPILATION submission_id]\<rparr>,
                     Inr True)
                  else
                    (es2\<lparr>jd := jd_queue_push now (jd es2)
                                     (JOB_TYPE_COMPILATION, Some submission)
                                     JOB_PRIORITY_HIGH None\<rparr>,
                     Inr True)))"

definition es_update_evaluation :: "EvaluationServer \<Rightarrow> string \<Rightarrow> EvaluationServer \<times> (error + unit)" where
  "es_update_evaluation es submission_id =
     (case from_couch (couch es) submission_id of
        Inl e \<Rightarrow> (es, Inl e)
      | Inr submission \<Rightarrow>
          (es\<lparr>es_events := es_events es @
                 [Scorer_add_submission (couch_id submission), Update_ranking_view]\<rparr>, Inr ()))"

text \<open>
  \<^verbatim>\<open>evaluation_finished\<close> takes the priority of the retry from the side data that
  \<^verbatim>\<open>action_finished\<close> returns: \<^verbatim>\<open>[0]\<close> on \<^verbatim>\<open>None\<close> raises.
\<close>

definition es_evaluation_finished ::
  "int \<Rightarrow> submission list \<Rightarrow> EvaluationServer \<Rightarrow> bool \<Rightarrow> string \<Rightarrow> EvaluationServer \<times> (error + bool)" where
  "es_evaluation_finished now conflicts es success submission_id =
     (case from_couch (couch es) submission_id of
        Inl e \<Rightarrow> (es, Inl e)
      | Inr loaded \<Rightarrow>
          (let submission = save_evaluation_tentative loaded conflicts;
               es1 = es\<lparr>couch := (couch es)(couch_id submission \<mapsto> submission)\<rparr>
           in case es_action_finished es1 (JOB_TYPE_EVALUATION, Some submission) of
                (es2, Inl e) \<Rightarrow> (es2, Inl e)
              | (es2, Inr None) \<Rightarrow> (es2, Inl TypeError)
              | (es2, Inr (Some (priority, ts))) \<Rightarrow>
                  if success then
                    (case es_update_evaluation es2 submission_id of
                       (es3, Inl e) \<Rightarrow> (es3, Inl e)
                     | (es3, Inr u) \<Rightarrow> (es3, Inr True))
                  else if evaluation_tentatives submission > MAX_EVALUATION_TENTATIVES then
                    (es2\<lparr>es_events := es_events es2 @
                            [Log_maximum_tentatives JOB_TYPE_EVALUATION submission_id]\<rparr>,
                     Inr True)
                  else
                    (es2\<lparr>jd := jd_queue_push now (jd es2)
                                     (JOB_TYPE_EVALUATION, Some submission) priority None\<rparr>,
                     Inr True)))"

definition es_self_destruct :: "int \<Rightarrow> EvaluationServer \<Rightarrow> EvaluationServer \<times> (error + bool)" where
  "es_self_destruct now es =
     (es\<lparr>jd := jd_queue_push now (jd es) (JOB_TYPE_BOMB, None) JOB_PRIORITY_EXTRA_HIGH None\<rparr>,
      Inr True)"

declare jd_process_queue.simps [simp del]

section \<open>What the specification says, as definitions\<close>

text \<open>
  The definitions of this section are not translations of the source: they write down
  what the specification says an operation does or what it requires of a state, so
  that the code can be compared with it.
\<close>

text \<open>
  What the specification says \<^verbatim>\<open>set_priority\<close> does, for comparison with the code:
  the first entry whose job equals \<open>job\<close> gets the new priority and the list is
  heapified; \<^verbatim>\<open>NotFound\<close> (a \<open>LookupError\<close>) if there is none.
\<close>

fun first_index :: "entry list \<Rightarrow> job \<Rightarrow> nat option" where
  "first_index [] job = None"
| "first_index (e # es) job =
     (if job_eq (snd (snd e)) job then Some 0 else map_option Suc (first_index es job))"

definition set_priority_spec :: "JobQueue \<Rightarrow> job \<Rightarrow> int \<Rightarrow> JobQueue \<times> (error + unit)" where
  "set_priority_spec q job priority =
     (case first_index (queue q) job of
        None \<Rightarrow> (q, Inl LookupError)
      | Some pos \<Rightarrow>
          (q\<lparr>queue := heapify ((queue q)[pos := (priority, snd (queue q ! pos))])\<rparr>, Inr ()))"

text \<open>What the specification says \<^verbatim>\<open>working_workers\<close> returns: the number of busy workers.\<close>

definition busy_workers_spec :: "WorkerPool \<Rightarrow> nat" where
  "busy_workers_spec p =
     length (filter (\<lambda>x. x \<noteq> WORKER_INACTIVE \<and> x \<noteq> WORKER_DISABLED) (map snd (workers p)))"

text \<open>What the specification says one round does: exit iff the bomb is primed and no worker is busy.\<close>

definition run_exits_spec :: "JobDispatcher \<Rightarrow> bool" where
  "run_exits_spec d = (bomb_primed d \<and> busy_workers_spec (jd_workers d) = 0)"




text \<open>No worker of the pool is busy with a job of this kind for this submission.\<close>

definition no_worker_on :: "WorkerPool \<Rightarrow> string \<Rightarrow> string \<Rightarrow> bool" where
  "no_worker_on p kind submission_id =
     list_all (\<lambda>(w, slot). case slot of
                               Job j \<Rightarrow> \<not> (fst j = kind \<and> map_option couch_id (snd j) = Some submission_id)
                             | _ \<Rightarrow> True)
              (workers p)"

text \<open>
  What the dictionaries of a pool look like between two operations: each worker once;
  every worker has its address, its error count and no disabling scheduled; a busy
  worker has a start time and the side data of its job, any other worker has
  neither. \<^verbatim>\<open>check_timeout\<close> relies on it (its \<^verbatim>\<open>assert\<close>, and the unpacking of
  \<^verbatim>\<open>side_data\<close>).
\<close>

definition worker_ok :: "WorkerPool \<Rightarrow> int \<Rightarrow> worker_slot \<Rightarrow> bool" where
  "worker_ok p w slot =
     (address p w \<noteq> None \<and> error_count p w \<noteq> None \<and> schedule_disabling p w = Some False
      \<and> (if slot \<noteq> WORKER_INACTIVE \<and> slot \<noteq> WORKER_DISABLED
          then start_time p w \<noteq> None \<and> start_time p w \<noteq> Some None
               \<and> side_data p w \<noteq> None \<and> side_data p w \<noteq> Some None
          else start_time p w = Some None \<and> side_data p w = Some None))"

definition pool_wf :: "WorkerPool \<Rightarrow> bool" where
  "pool_wf p =
     (distinct (map fst (workers p)) \<and> list_all (\<lambda>(w, slot). worker_ok p w slot) (workers p))"

text \<open>The worker has held its job for longer than the timeout.\<close>

definition leased_too_long :: "int \<Rightarrow> int \<Rightarrow> WorkerPool \<Rightarrow> int \<Rightarrow> bool" where
  "leased_too_long worker_timeout now p w =
     (case start_time p w of Some (Some st) \<Rightarrow> now - st > worker_timeout | _ \<Rightarrow> False)"

text \<open>The queue entry of the job a worker holds: the side data and the job.\<close>

definition lost_entry :: "WorkerPool \<Rightarrow> int \<Rightarrow> entry option" where
  "lost_entry p w =
     (case map_of (workers p) w of
        Some (Job job) \<Rightarrow>
          (case side_data p w of
             Some (Some (priority, ts)) \<Rightarrow> Some (priority, ts, job)
           | _ \<Rightarrow> None)
      | _ \<Rightarrow> None)"

text \<open>The pool after worker \<open>w\<close> has lost its lease.\<close>

definition expire :: "int \<Rightarrow> WorkerPool \<Rightarrow> WorkerPool" where
  "expire w p =
     p\<lparr>start_time := (start_time p)(w \<mapsto> None),
       side_data := (side_data p)(w \<mapsto> None),
       schedule_disabling := (schedule_disabling p)(w \<mapsto> False),
       workers := AList.update w WORKER_DISABLED (workers p)\<rparr>"

section \<open>Concrete states\<close>

text \<open>
  The states at which the statements below are evaluated. Most have one submission
  \<^verbatim>\<open>"s1"\<close> and one worker (number 0 at \<^verbatim>\<open>localhost:8000\<close>); \<open>no_failure\<close> says that no
  call to a worker raises.
\<close>

definition submission_s1 :: submission where
  "submission_s1 =
     \<lparr>couch_id = ''s1'', timestamp = 10, compilation_tentatives = 0,
      evaluation_tentatives = 0, compilation_outcome = None, evaluation_outcome = None,
      tokened = False\<rparr>"

definition no_failure :: "rpc \<Rightarrow> bool" where
  "no_failure c = False"

definition pool_one_idle :: WorkerPool where
  "pool_one_idle =
     \<lparr>workers = [(0, WORKER_INACTIVE)], wp_semaphore = 1, start_time = [0 \<mapsto> None],
      address = [0 \<mapsto> (''localhost'', 8000)], error_count = [0 \<mapsto> 0],
      side_data = [0 \<mapsto> None], schedule_disabling = [0 \<mapsto> False]\<rparr>"

definition pool_one_busy :: "submission \<Rightarrow> WorkerPool" where
  "pool_one_busy s =
     \<lparr>workers = [(0, Job (JOB_TYPE_COMPILATION, Some s))], wp_semaphore = 0,
      start_time = [0 \<mapsto> Some 100], address = [0 \<mapsto> (''localhost'', 8000)],
      error_count = [0 \<mapsto> 0], side_data = [0 \<mapsto> Some (JOB_PRIORITY_HIGH, 10)],
      schedule_disabling = [0 \<mapsto> False]\<rparr>"

definition pool_one_disabled :: WorkerPool where
  "pool_one_disabled =
     \<lparr>workers = [(0, WORKER_DISABLED)], wp_semaphore = 0, start_time = [0 \<mapsto> None],
      address = [0 \<mapsto> (''localhost'', 8000)], error_count = [0 \<mapsto> 0],
      side_data = [0 \<mapsto> None], schedule_disabling = [0 \<mapsto> False]\<rparr>"

definition queue_s1_low :: JobQueue where
  "queue_s1_low =
     \<lparr>queue = [(JOB_PRIORITY_LOW, 10, JOB_TYPE_EVALUATION, Some submission_s1)],
      jq_semaphore = 1\<rparr>"

definition es_one_idle :: EvaluationServer where
  "es_one_idle =
     \<lparr>jd = \<lparr>jd_queue = jq_init, jd_workers = pool_one_idle, bomb_primed = False,
             touched = False, rpc_log = []\<rparr>,
      couch = [''s1'' \<mapsto> submission_s1],
      es_events = []\<rparr>"

definition jd_compiling_s1 :: JobDispatcher where
  "jd_compiling_s1 =
     \<lparr>jd_queue = jq_init, jd_workers = pool_one_busy submission_s1, bomb_primed = False,
      touched = False, rpc_log = [RPC_compile (''localhost'', 8000) ''s1'']\<rparr>"

definition jd_bomb_primed :: JobDispatcher where
  "jd_bomb_primed =
     \<lparr>jd_queue = \<lparr>queue = [(JOB_PRIORITY_EXTRA_HIGH, 200, JOB_TYPE_BOMB, None)],
                  jq_semaphore = 1\<rparr>,
      jd_workers = pool_one_busy submission_s1, bomb_primed = True,
      touched = True, rpc_log = [RPC_compile (''localhost'', 8000) ''s1'']\<rparr>"

definition jd_one_disabled :: JobDispatcher where
  "jd_one_disabled =
     \<lparr>jd_queue = jq_init, jd_workers = pool_one_disabled, bomb_primed = False,
      touched = False, rpc_log = []\<rparr>"

text \<open>
  One worker compiling \<^verbatim>\<open>"s1"\<close> again and again: \<open>es_compiling k\<close> is the server while the
  worker compiles for the \<open>k + 1\<close>-th time, with \<open>k\<close> tentatives counted in the store;
  \<open>es_requeued k\<close> is the server after the \<open>k\<close>-th failure has been handled and the
  compilation pushed again; \<open>es_given_up k\<close> is the server after the \<open>k\<close>-th failure when
  the compilation is given up instead, with the message logged and nothing queued.
\<close>

definition s1_tried :: "nat \<Rightarrow> submission" where
  "s1_tried k = submission_s1\<lparr>compilation_tentatives := int k\<rparr>"

definition compile_s1 :: rpc where
  "compile_s1 = RPC_compile (''localhost'', 8000) ''s1''"

definition es_compiling :: "nat \<Rightarrow> EvaluationServer" where
  "es_compiling k =
     \<lparr>jd = \<lparr>jd_queue = jq_init, jd_workers = pool_one_busy (s1_tried k), bomb_primed = False,
             touched = False, rpc_log = replicate (Suc k) compile_s1\<rparr>,
      couch = [''s1'' \<mapsto> s1_tried k],
      es_events = []\<rparr>"

definition es_requeued :: "nat \<Rightarrow> EvaluationServer" where
  "es_requeued k =
     \<lparr>jd = \<lparr>jd_queue = \<lparr>queue = [(JOB_PRIORITY_HIGH, 10, JOB_TYPE_COMPILATION,
                                    Some (s1_tried k))], jq_semaphore = 1\<rparr>,
             jd_workers = pool_one_idle, bomb_primed = False,
             touched = True, rpc_log = replicate k compile_s1\<rparr>,
      couch = [''s1'' \<mapsto> s1_tried k],
      es_events = []\<rparr>"

definition es_given_up :: "nat \<Rightarrow> EvaluationServer" where
  "es_given_up k =
     \<lparr>jd = \<lparr>jd_queue = jq_init, jd_workers = pool_one_idle, bomb_primed = False,
             touched = True, rpc_log = replicate k compile_s1\<rparr>,
      couch = [''s1'' \<mapsto> s1_tried k],
      es_events = [Log_maximum_tentatives JOB_TYPE_COMPILATION ''s1'']\<rparr>"

text \<open>
  Two busy workers: worker 0 compiles \<^verbatim>\<open>"s1"\<close> since 100, worker 1 evaluates a second
  submission \<^verbatim>\<open>"s2"\<close> since 900.
\<close>

definition submission_s2 :: submission where
  "submission_s2 =
     \<lparr>couch_id = ''s2'', timestamp = 20, compilation_tentatives = 1,
      evaluation_tentatives = 0, compilation_outcome = Some ''ok'', evaluation_outcome = None,
      tokened = False\<rparr>"

definition pool_two_busy :: WorkerPool where
  "pool_two_busy =
     \<lparr>workers = [(0, Job (JOB_TYPE_COMPILATION, Some submission_s1)),
                 (1, Job (JOB_TYPE_EVALUATION, Some submission_s2))],
      wp_semaphore = 0,
      start_time = [0 \<mapsto> Some 100, 1 \<mapsto> Some 900],
      address = [0 \<mapsto> (''localhost'', 8000), 1 \<mapsto> (''localhost'', 8001)],
      error_count = [0 \<mapsto> 0, 1 \<mapsto> 0],
      side_data = [0 \<mapsto> Some (JOB_PRIORITY_HIGH, 10), 1 \<mapsto> Some (JOB_PRIORITY_LOW, 20)],
      schedule_disabling = [0 \<mapsto> False, 1 \<mapsto> False]\<rparr>"

text \<open>
  Two idle workers and the compilation of \<^verbatim>\<open>"s1"\<close> at the head of the queue;
  \<open>worker_0_down\<close> says that the call that asks worker 0 to compile \<^verbatim>\<open>"s1"\<close> raises.
\<close>

definition pool_two_idle :: WorkerPool where
  "pool_two_idle =
     \<lparr>workers = [(0, WORKER_INACTIVE), (1, WORKER_INACTIVE)], wp_semaphore = 2,
      start_time = [0 \<mapsto> None, 1 \<mapsto> None],
      address = [0 \<mapsto> (''localhost'', 8000), 1 \<mapsto> (''localhost'', 8001)],
      error_count = [0 \<mapsto> 0, 1 \<mapsto> 0],
      side_data = [0 \<mapsto> None, 1 \<mapsto> None],
      schedule_disabling = [0 \<mapsto> False, 1 \<mapsto> False]\<rparr>"

definition jd_two_idle_queued :: JobDispatcher where
  "jd_two_idle_queued =
     \<lparr>jd_queue = \<lparr>queue = [(JOB_PRIORITY_HIGH, 10, JOB_TYPE_COMPILATION, Some submission_s1)],
                  jq_semaphore = 1\<rparr>,
      jd_workers = pool_two_idle, bomb_primed = False, touched = False, rpc_log = []\<rparr>"

definition worker_0_down :: "rpc \<Rightarrow> bool" where
  "worker_0_down c = (c = RPC_compile (''localhost'', 8000) ''s1'')"

section \<open>General facts\<close>

lemma job_types_distinct:
  "JOB_TYPE_COMPILATION \<noteq> JOB_TYPE_BOMB" "JOB_TYPE_EVALUATION \<noteq> JOB_TYPE_BOMB"
  "JOB_TYPE_COMPILATION \<noteq> JOB_TYPE_EVALUATION" "JOB_TYPE_BOMB \<noteq> JOB_TYPE_COMPILATION"
  "JOB_TYPE_BOMB \<noteq> JOB_TYPE_EVALUATION" "JOB_TYPE_EVALUATION \<noteq> JOB_TYPE_COMPILATION"
  by (simp_all add: JOB_TYPE_COMPILATION_def JOB_TYPE_EVALUATION_def JOB_TYPE_BOMB_def)

lemma couch_id_s1: "couch_id submission_s1 = ''s1''"
  by (simp add: submission_s1_def)

lemma heappush_Nil: "heappush [] e = [e]"
  by (simp add: heappush_def)

lemma pool_one_idle_reached:
  "wp_add_worker wp_init 0 ''localhost'' 8000 = (pool_one_idle, Inr ())"
  by (simp add: wp_add_worker_def wp_init_def pool_one_idle_def)

lemma pool_one_busy_reached:
  "wp_acquire_worker 100 pool_one_idle (JOB_TYPE_COMPILATION, Some s) False
     (Some (JOB_PRIORITY_HIGH, 10)) = (pool_one_busy s, Inr (Some 0))"
  by (simp add: wp_acquire_worker_def wp_find_worker_def pool_one_idle_def pool_one_busy_def)

lemma queue_s1_low_reached:
  "jq_push 50 jq_init (JOB_TYPE_EVALUATION, Some submission_s1) JOB_PRIORITY_LOW None
     = queue_s1_low"
  by (simp add: jq_push_def jq_init_def heappush_Nil queue_s1_low_def submission_s1_def)

subsection \<open>The loop of \<^verbatim>\<open>process_queue\<close>, one round at a time\<close>

lemma process_queue_empty:
  "jq_top (jd_queue d) = Inl e \<Longrightarrow> jd_process_queue raises now d = (d, Inr ())"
  by (subst jd_process_queue.simps) simp

lemma process_queue_error:
  "jq_top (jd_queue d) = Inr (priority, ts, job) \<Longrightarrow>
   jd_check_action raises now d priority ts job = (d1, Inl e) \<Longrightarrow>
   jd_process_queue raises now d = (d1, Inl e)"
  by (subst jd_process_queue.simps) simp

lemma process_queue_fail:
  "jq_top (jd_queue d) = Inr (priority, ts, job) \<Longrightarrow>
   jd_check_action raises now d priority ts job = (d1, Inr ACTION_FAIL) \<Longrightarrow>
   jd_process_queue raises now d = (d1, Inr ())"
  by (subst jd_process_queue.simps) simp

lemma process_queue_ok:
  "jq_top (jd_queue d) = Inr (priority, ts, job) \<Longrightarrow>
   jd_check_action raises now d priority ts job = (d1, Inr ACTION_OK) \<Longrightarrow>
   jq_pop (jd_queue d1) = (q1, Inr x) \<Longrightarrow>
   jd_process_queue raises now d = jd_process_queue raises now (d1\<lparr>jd_queue := q1\<rparr>)"
  by (subst jd_process_queue.simps) simp

lemma process_queue_requeue:
  "jq_top (jd_queue d) = Inr (priority, ts, job) \<Longrightarrow>
   jd_check_action raises now d priority ts job = (d1, Inr ACTION_REQUEUE) \<Longrightarrow>
   jd_process_queue raises now d = jd_process_queue raises now d1"
  by (subst jd_process_queue.simps) simp

section \<open>C2: \<^verbatim>\<open>JobQueue.set_priority\<close>\<close>

lemma search_loop_nonempty: "xs \<noteq> [] \<Longrightarrow> search_loop q xs job = Inl TypeError"
  by (cases xs) auto

lemma jq_search_raises:
  "jq_search q job = Inl (if queue q = [] then LookupError else TypeError)"
  by (simp add: jq_search_def search_loop_nonempty)

text \<open>
  On every queue \<^verbatim>\<open>set_priority\<close> raises and leaves the queue as it was:
  \<^verbatim>\<open>LookupError\<close> on the empty queue, \<^verbatim>\<open>TypeError\<close> on any other, whether the job is
  queued or not.
\<close>

lemma jq_set_priority_raises:
  "jq_set_priority q job priority = (q, Inl (if queue q = [] then LookupError else TypeError))"
  by (simp add: jq_set_priority_def jq_search_raises)

text \<open>
  Claim C2 says that \<^verbatim>\<open>set_priority(job, new_priority)\<close> finds the first entry of the
  job, gives it the new priority and re-heapifies, so that \<^verbatim>\<open>top()\<close> shows the new
  priority. On the queue that holds the evaluation of \<^verbatim>\<open>"s1"\<close> at \<^verbatim>\<open>LOW\<close>, the code
  raises \<^verbatim>\<open>TypeError\<close> and \<^verbatim>\<open>top()\<close> still shows \<^verbatim>\<open>LOW\<close>, while the operation the
  claim describes would show \<^verbatim>\<open>MEDIUM\<close>.
\<close>

theorem set_priority_of_queued_job_raises:
  "jq_set_priority queue_s1_low (JOB_TYPE_EVALUATION, Some submission_s1) JOB_PRIORITY_MEDIUM
     = (queue_s1_low, Inl TypeError)
   \<and> jq_top queue_s1_low
     = Inr (JOB_PRIORITY_LOW, 10, JOB_TYPE_EVALUATION, Some submission_s1)
   \<and> jq_top (fst (set_priority_spec queue_s1_low (JOB_TYPE_EVALUATION, Some submission_s1)
                    JOB_PRIORITY_MEDIUM))
     = Inr (JOB_PRIORITY_MEDIUM, 10, JOB_TYPE_EVALUATION, Some submission_s1)"
  by (simp add: jq_set_priority_def jq_search_def queue_s1_low_def jq_top_def
      set_priority_spec_def job_eq_def submission_eq_def heapify_def)

section \<open>C3: \<^verbatim>\<open>EvaluationServer.use_token\<close>\<close>

lemma es_one_idle_reached: "jd es_one_idle = jd_init [(''localhost'', 8000)]"
  by (simp add: es_one_idle_def jd_init_def pool_one_idle_reached)

lemma jd_queue_set_priority_raises:
  "jd_queue_set_priority d job priority =
     (d, Inl (if queue (jd_queue d) = [] then LookupError else TypeError))"
  by (simp add: jd_queue_set_priority_def jq_set_priority_raises)

text \<open>
  \<^verbatim>\<open>use_token\<close> has no \<^verbatim>\<open>try\<close> around \<^verbatim>\<open>queue_set_priority\<close>, and that call raises on
  every queue: no call of \<^verbatim>\<open>use_token\<close> returns \<^verbatim>\<open>True\<close>.
\<close>

lemma es_use_token_never_returns: "snd (es_use_token es submission_id) \<noteq> Inr b"
  by (simp add: es_use_token_def jd_queue_set_priority_raises Let_def split: sum.splits)

text \<open>
  Claim C3 says that \<^verbatim>\<open>use_token(submission_id)\<close> returns true and that, when the
  evaluation job is not in the queue, the failure of \<^verbatim>\<open>queue_set_priority\<close> is swallowed
  inside the handler. With \<^verbatim>\<open>"s1"\<close> in the store and an empty queue, the code leaves
  \<^verbatim>\<open>use_token("s1")\<close> with \<^verbatim>\<open>LookupError\<close>.
\<close>

theorem use_token_raises_when_not_queued:
  "es_use_token es_one_idle ''s1'' = (es_one_idle, Inl LookupError)"
  by (simp add: es_use_token_def jd_queue_set_priority_raises from_couch_def es_one_idle_def
      submission_s1_def jq_init_def)

section \<open>C8: \<^verbatim>\<open>WorkerPool.working_workers\<close>\<close>

text \<open>On every pool \<^verbatim>\<open>working_workers()\<close> raises \<^verbatim>\<open>TypeError\<close>.\<close>

lemma wp_working_workers_raises: "wp_working_workers p = Inl TypeError"
  by (simp add: wp_working_workers_def dict_values_attr_def)

text \<open>
  Claim C8 says that \<^verbatim>\<open>working_workers()\<close> returns the number of busy workers. On the
  pool whose only worker is busy compiling \<^verbatim>\<open>"s1"\<close> that number is 1; the code raises
  \<^verbatim>\<open>TypeError\<close>.
\<close>

theorem working_workers_raises_on_busy_pool:
  "wp_working_workers (pool_one_busy submission_s1) = Inl TypeError
   \<and> busy_workers_spec (pool_one_busy submission_s1) = 1"
  by (simp add: wp_working_workers_def dict_values_attr_def busy_workers_spec_def
      pool_one_busy_def)

section \<open>C7: the semaphore of the pool counts the inactive workers\<close>





lemma find_loop_inactive_Some:
  "distinct (map fst al) \<Longrightarrow> find_loop al WORKER_INACTIVE = Inr w \<Longrightarrow>
   map_of al w = Some WORKER_INACTIVE"
proof (induction al)
  case Nil
  then show ?case by simp
next
  case (Cons a al)
  obtain k s where a: "a = (k, s)" by (cases a)
  show ?case
  proof (cases "s = WORKER_INACTIVE")
    case True
    with Cons.prems a show ?thesis by (cases s) auto
  next
    case False
    with Cons.prems a have f: "find_loop al WORKER_INACTIVE = Inr w"
      by (cases s) auto
    with Cons have m: "map_of al w = Some WORKER_INACTIVE" by simp
    then have "w \<in> fst ` set al" by (metis map_of_eq_None_iff option.distinct(1))
    with Cons.prems a have "w \<noteq> k" by auto
    with m a show ?thesis by simp
  qed
qed










text \<open>What a successful \<^verbatim>\<open>acquire_worker\<close> did.\<close>

lemma acquire_worker_SomeD:
  assumes "wp_acquire_worker now p job blocking sd = (p1, Inr (Some w))"
  shows "wp_semaphore p \<noteq> 0" "find_loop (workers p) WORKER_INACTIVE = Inr w"
    "p1 = p\<lparr>wp_semaphore := wp_semaphore p - 1,
              workers := AList.update w (Job job) (workers p),
              start_time := (start_time p)(w \<mapsto> Some now),
              side_data := (side_data p)(w \<mapsto> sd)\<rparr>"
  using assms
  by (auto simp: wp_acquire_worker_def wp_find_worker_def Let_def split: if_splits sum.splits)







section \<open>C4: the bomb\<close>

text \<open>
  A bomb at the head of the queue: \<^verbatim>\<open>process_queue\<close> primes it and returns; the queue
  and the pool stay as they are, so no worker is acquired.
\<close>

lemma process_queue_bomb:
  assumes "jq_top (jd_queue d) = Inr (priority, ts, JOB_TYPE_BOMB, s)"
  shows "jd_process_queue raises now d =
           ((if bomb_primed d then d else d\<lparr>bomb_primed := True, touched := True\<rparr>), Inr ())"
proof -
  have "jd_check_action raises now d priority ts (JOB_TYPE_BOMB, s) =
          ((if bomb_primed d then d else d\<lparr>bomb_primed := True, touched := True\<rparr>),
           Inr ACTION_FAIL)"
    by (simp add: jd_check_action_def)
  from process_queue_fail[OF assms this] show ?thesis .
qed

text \<open>With the bomb primed, a round of \<^verbatim>\<open>run()\<close> ends in the \<^verbatim>\<open>TypeError\<close> of \<^verbatim>\<open>working_workers()\<close>.\<close>

lemma jd_run_iteration_primed:
  "touched d \<Longrightarrow> bomb_primed d \<Longrightarrow>
   jd_run_iteration raises now d = (d\<lparr>touched := False\<rparr>, Inl TypeError)"
  by (simp add: jd_run_iteration_def wp_working_workers_raises)

lemma jd_run_iteration_loop:
  "touched d \<Longrightarrow> \<not> bomb_primed d \<Longrightarrow>
   jd_process_queue raises now (d\<lparr>touched := False\<rparr>) = (d2, Inr ()) \<Longrightarrow>
   jd_run_iteration raises now d = (d2, Inr LOOP)"
  by (simp add: jd_run_iteration_def)

text \<open>
  How the two states come about: the compilation of \<^verbatim>\<open>"s1"\<close> is pushed and dispatched
  to the one worker; then \<^verbatim>\<open>self_destruct\<close> pushes the bomb and the next round primes it.
\<close>

lemma jd_compiling_s1_reached:
  "jd_run_iteration no_failure 100
     (jd_queue_push 50 (jd_init [(''localhost'', 8000)])
        (JOB_TYPE_COMPILATION, Some submission_s1) JOB_PRIORITY_HIGH None)
   = (jd_compiling_s1, Inr LOOP)"
proof -
  define d0 where "d0 = (jd_queue_push 50 (jd_init [(''localhost'', 8000)])
        (JOB_TYPE_COMPILATION, Some submission_s1) JOB_PRIORITY_HIGH None)\<lparr>touched := False\<rparr>"
  have d0: "d0 = \<lparr>jd_queue = \<lparr>queue = [(JOB_PRIORITY_HIGH, 10, JOB_TYPE_COMPILATION,
                                          Some submission_s1)], jq_semaphore = 1\<rparr>,
                  jd_workers = pool_one_idle, bomb_primed = False, touched = False,
                  rpc_log = []\<rparr>"
    by (simp add: d0_def jd_queue_push_def jq_push_def jd_init_def jq_init_def
        pool_one_idle_reached heappush_Nil submission_s1_def)
  have t: "jq_top (jd_queue d0)
             = Inr (JOB_PRIORITY_HIGH, 10, JOB_TYPE_COMPILATION, Some submission_s1)"
    by (simp add: d0 jq_top_def)
  have a: "jd_check_action no_failure 100 d0 JOB_PRIORITY_HIGH 10
             (JOB_TYPE_COMPILATION, Some submission_s1)
           = (jd_compiling_s1\<lparr>jd_queue := jd_queue d0\<rparr>, Inr ACTION_OK)"
    by (simp add: d0 jd_check_action_def pool_one_busy_reached jd_compiling_s1_def
        pool_one_busy_def dispatch_rpc_def no_failure_def couch_id_s1
        job_types_distinct Let_def)
  have p: "jq_pop (jd_queue (jd_compiling_s1\<lparr>jd_queue := jd_queue d0\<rparr>))
           = (jq_init, Inr (JOB_PRIORITY_HIGH, 10, JOB_TYPE_COMPILATION, Some submission_s1))"
    by (simp add: d0 jq_pop_def heappop_def jq_init_def)
  have e: "jq_top (jd_queue jd_compiling_s1) = Inl LookupError"
    by (simp add: jd_compiling_s1_def jq_top_def jq_init_def)
  have "jd_process_queue no_failure 100 d0 = (jd_compiling_s1, Inr ())"
    using process_queue_ok[OF t a p] process_queue_empty[OF e, of no_failure 100]
    by (simp add: jd_compiling_s1_def)
  from jd_run_iteration_loop[OF _ _ this[unfolded d0_def]] show ?thesis
    by (simp add: jd_queue_push_def jd_init_def)
qed

lemma jd_bomb_primed_reached:
  "jd_run_iteration no_failure 200
     (jd_queue_push 200 jd_compiling_s1 (JOB_TYPE_BOMB, None) JOB_PRIORITY_EXTRA_HIGH None)
   = (jd_bomb_primed, Inr LOOP)"
proof -
  define d0 where "d0 = (jd_queue_push 200 jd_compiling_s1 (JOB_TYPE_BOMB, None)
                           JOB_PRIORITY_EXTRA_HIGH None)\<lparr>touched := False\<rparr>"
  have d0: "d0 = jd_bomb_primed\<lparr>bomb_primed := False, touched := False\<rparr>"
    by (simp add: d0_def jd_queue_push_def jq_push_def jd_compiling_s1_def jq_init_def
        heappush_Nil jd_bomb_primed_def)
  have t: "jq_top (jd_queue d0) = Inr (JOB_PRIORITY_EXTRA_HIGH, 200, JOB_TYPE_BOMB, None)"
    by (simp add: d0 jd_bomb_primed_def jq_top_def)
  have "jd_process_queue no_failure 200 d0 = (jd_bomb_primed, Inr ())"
    using process_queue_bomb[OF t, of no_failure 200]
    by (simp add: d0 jd_bomb_primed_def)
  from jd_run_iteration_loop[OF _ _ this[unfolded d0_def]] show ?thesis
    by (simp add: jd_queue_push_def jd_compiling_s1_def)
qed

text \<open>
  Claim C4 says that once the bomb is primed no worker goes from inactive to busy, and
  that the loop of \<^verbatim>\<open>run()\<close> ends exactly when the bomb is primed and
  \<^verbatim>\<open>working_workers()\<close> is 0. In the state reached above the bomb is primed and the one
  worker is still busy, so the loop should go on; the round of the code ends with
  \<^verbatim>\<open>TypeError\<close>, raised by \<^verbatim>\<open>working_workers()\<close>, and the thread of the dispatcher ends
  there.
\<close>

theorem run_ends_while_worker_busy:
  "bomb_primed jd_bomb_primed
   \<and> busy_workers_spec (jd_workers jd_bomb_primed) = 1
   \<and> \<not> run_exits_spec jd_bomb_primed
   \<and> jd_run_iteration no_failure 300 jd_bomb_primed
       = (jd_bomb_primed\<lparr>touched := False\<rparr>, Inl TypeError)"
  by (simp add: jd_run_iteration_def wp_working_workers_def dict_values_attr_def
      run_exits_spec_def busy_workers_spec_def jd_bomb_primed_def pool_one_busy_def)

section \<open>C9: the auxiliary operations of the dispatcher and \<open>touched\<close>\<close>

text \<open>
  Claim C9 says that each of \<^verbatim>\<open>queue_push\<close>, \<^verbatim>\<open>queue_set_priority\<close>, \<^verbatim>\<open>release_worker\<close>,
  \<^verbatim>\<open>enable_worker\<close>, \<^verbatim>\<open>add_worker\<close> and \<^verbatim>\<open>del_worker\<close> leaves \<open>touched\<close> set on
  success. \<^verbatim>\<open>del_worker\<close> does not: deleting the disabled worker 0 succeeds and
  \<open>touched\<close> stays cleared.
\<close>

theorem del_worker_leaves_touched_cleared:
  "snd (jd_del_worker jd_one_disabled 0) = Inr ()
   \<and> workers (jd_workers (fst (jd_del_worker jd_one_disabled 0))) = []
   \<and> \<not> touched (fst (jd_del_worker jd_one_disabled 0))"
  by (simp add: jd_del_worker_def wp_del_worker_def jd_one_disabled_def pool_one_disabled_def
      Let_def)

text \<open>
  C9 as amended: \<^verbatim>\<open>queue_push\<close> always, and \<^verbatim>\<open>release_worker\<close>, \<^verbatim>\<open>enable_worker\<close> and
  \<^verbatim>\<open>add_worker\<close> whenever they succeed, leave \<open>touched\<close> set; \<^verbatim>\<open>del_worker\<close> leaves
  \<open>touched\<close> as it was, whether it succeeds or not. Each operation is one step of the
  model, which is what holding the dispatcher's lock gives. \<^verbatim>\<open>queue_set_priority\<close> is
  left out: by \<open>jd_queue_set_priority_raises\<close> it never succeeds.
\<close>

theorem auxiliary_operations_and_touched:
  "touched (jd_queue_push now d job priority ts)
   \<and> (\<forall>d' sd. jd_release_worker d worker = (d', Inr sd) \<longrightarrow> touched d')
   \<and> (\<forall>d' u. jd_enable_worker d n = (d', Inr u) \<longrightarrow> touched d')
   \<and> (\<forall>d' u. jd_add_worker d n addr port = (d', Inr u) \<longrightarrow> touched d')
   \<and> touched (fst (jd_del_worker d n)) = touched d"
proof -
  have "touched (jd_queue_push now d job priority ts)"
    by (simp add: jd_queue_push_def)
  moreover have "\<forall>d' sd. jd_release_worker d worker = (d', Inr sd) \<longrightarrow> touched d'"
    by (auto simp: jd_release_worker_def split: prod.splits sum.splits)
  moreover have "\<forall>d' u. jd_enable_worker d n = (d', Inr u) \<longrightarrow> touched d'"
    by (auto simp: jd_enable_worker_def split: prod.splits sum.splits)
  moreover have "\<forall>d' u. jd_add_worker d n addr port = (d', Inr u) \<longrightarrow> touched d'"
    by (auto simp: jd_add_worker_def split: prod.splits sum.splits)
  moreover have "touched (fst (jd_del_worker d n)) = touched d"
    by (simp add: jd_del_worker_def split: prod.splits sum.splits)
  ultimately show ?thesis by blast
qed

text \<open>
  The amended statement at concrete calls that succeed: releasing the busy worker 0,
  enabling the disabled worker 0, adding a worker 1, deleting the disabled worker 0.
\<close>

theorem auxiliary_operations_and_touched_witness:
  "jd_release_worker jd_compiling_s1 0
     = (jd_compiling_s1\<lparr>jd_workers := pool_one_idle, touched := True\<rparr>,
        Inr (Some (JOB_PRIORITY_HIGH, 10)))
   \<and> touched (jd_compiling_s1\<lparr>jd_workers := pool_one_idle, touched := True\<rparr>)
   \<and> jd_enable_worker jd_one_disabled 0
     = (jd_one_disabled\<lparr>jd_workers := pool_one_idle, touched := True\<rparr>, Inr ())
   \<and> touched (jd_one_disabled\<lparr>jd_workers := pool_one_idle, touched := True\<rparr>)
   \<and> snd (jd_add_worker jd_one_disabled 1 ''localhost'' 8001) = Inr ()
   \<and> touched (fst (jd_add_worker jd_one_disabled 1 ''localhost'' 8001))
   \<and> touched (jd_queue_push 50 jd_one_disabled (JOB_TYPE_COMPILATION, Some submission_s1)
                JOB_PRIORITY_HIGH None)
   \<and> snd (jd_del_worker jd_one_disabled 0) = Inr ()
   \<and> touched (fst (jd_del_worker jd_one_disabled 0)) = touched jd_one_disabled"
proof -
  have r: "jd_release_worker jd_compiling_s1 0
     = (jd_compiling_s1\<lparr>jd_workers := pool_one_idle, touched := True\<rparr>,
        Inr (Some (JOB_PRIORITY_HIGH, 10)))"
    by (simp add: jd_release_worker_def wp_release_worker_def jd_compiling_s1_def
        pool_one_busy_def pool_one_idle_def fun_upd_twist)
  have e: "jd_enable_worker jd_one_disabled 0
     = (jd_one_disabled\<lparr>jd_workers := pool_one_idle, touched := True\<rparr>, Inr ())"
    by (simp add: jd_enable_worker_def wp_enable_worker_def jd_one_disabled_def
        pool_one_disabled_def pool_one_idle_def)
  have a: "snd (jd_add_worker jd_one_disabled 1 ''localhost'' 8001) = Inr ()"
    by (simp add: jd_add_worker_def wp_add_worker_def jd_one_disabled_def pool_one_disabled_def)
  have d: "snd (jd_del_worker jd_one_disabled 0) = Inr ()"
    by (simp add: jd_del_worker_def wp_del_worker_def jd_one_disabled_def
        pool_one_disabled_def Let_def)
  have t1: "touched (jd_compiling_s1\<lparr>jd_workers := pool_one_idle, touched := True\<rparr>)"
    using auxiliary_operations_and_touched[where d = jd_compiling_s1 and worker = 0] r
    by blast
  have t2: "touched (jd_one_disabled\<lparr>jd_workers := pool_one_idle, touched := True\<rparr>)"
    using auxiliary_operations_and_touched[where d = jd_one_disabled and n = 0] e
    by blast
  have t3: "touched (fst (jd_add_worker jd_one_disabled 1 ''localhost'' 8001))"
    using auxiliary_operations_and_touched
            [where d = jd_one_disabled and n = 1 and addr = "''localhost''" and port = 8001] a
    by (metis prod.collapse)
  have t4: "touched (jd_queue_push 50 jd_one_disabled (JOB_TYPE_COMPILATION, Some submission_s1)
                JOB_PRIORITY_HIGH None)"
    using auxiliary_operations_and_touched[where d = jd_one_disabled] by blast
  have t5: "touched (fst (jd_del_worker jd_one_disabled 0)) = touched jd_one_disabled"
    using auxiliary_operations_and_touched[where d = jd_one_disabled and n = 0] by blast
  from r e a d t1 t2 t3 t4 t5 show ?thesis by blast
qed

section \<open>C10: a finished job that no worker holds\<close>

lemma find_loop_no_worker:
  "list_all (\<lambda>(w, slot). case slot of
                            Job j \<Rightarrow> \<not> (fst j = kind \<and> map_option couch_id (snd j) = Some (couch_id s))
                          | _ \<Rightarrow> True) al \<Longrightarrow>
   find_loop al (Job (kind, Some s)) = Inl LookupError"
  by (induction al) (auto simp: job_eq_def submission_eq_def split: worker_slot.splits)

lemma save_compilation_tentative_last:
  "save_compilation_tentative s conflicts =
     (last (s # conflicts))\<lparr>compilation_tentatives :=
                               compilation_tentatives (last (s # conflicts)) + 1\<rparr>"
  by (induction conflicts arbitrary: s) auto

lemma save_evaluation_tentative_last:
  "save_evaluation_tentative s conflicts =
     (last (s # conflicts))\<lparr>evaluation_tentatives :=
                               evaluation_tentatives (last (s # conflicts)) + 1\<rparr>"
  by (induction conflicts arbitrary: s) auto

lemma es_action_finished_no_worker:
  assumes "no_worker_on (jd_workers (jd es)) kind (couch_id s)"
  shows "es_action_finished es (kind, Some s) = (es, Inl LookupError)"
  using find_loop_no_worker[OF assms[unfolded no_worker_on_def]]
  by (simp add: es_action_finished_def jd_find_worker_def wp_find_worker_def)

text \<open>
  Claim C10: when \<^verbatim>\<open>compilation_finished\<close> (or \<^verbatim>\<open>evaluation_finished\<close>) is called for a
  stored submission and no worker is busy on a matching job, the call fails with a
  lookup error, and the store already holds the submission with its counter
  incremented: the counter of the document last loaded (the one in the store, or the
  last one refreshed after a conflict) plus one. Nothing else of the server has
  changed.
\<close>

theorem finished_without_worker_fails_after_saving:
  assumes "couch es submission_id = Some s"
      and "\<forall>c \<in> set (s # conflicts). couch_id c = submission_id"
  shows "(no_worker_on (jd_workers (jd es)) JOB_TYPE_COMPILATION submission_id \<longrightarrow>
            es_compilation_finished now conflicts es success submission_id =
              (es\<lparr>couch := (couch es)(submission_id \<mapsto>
                   (last (s # conflicts))\<lparr>compilation_tentatives :=
                      compilation_tentatives (last (s # conflicts)) + 1\<rparr>)\<rparr>,
               Inl LookupError))
       \<and> (no_worker_on (jd_workers (jd es)) JOB_TYPE_EVALUATION submission_id \<longrightarrow>
            es_evaluation_finished now conflicts es success submission_id =
              (es\<lparr>couch := (couch es)(submission_id \<mapsto>
                   (last (s # conflicts))\<lparr>evaluation_tentatives :=
                      evaluation_tentatives (last (s # conflicts)) + 1\<rparr>)\<rparr>,
               Inl LookupError))"
proof -
  from assms(2) have id: "couch_id (last (s # conflicts)) = submission_id"
    by (metis last_in_set list.distinct(1))
  define sc where "sc = save_compilation_tentative s conflicts"
  define se where "se = save_evaluation_tentative s conflicts"
  have idc: "couch_id sc = submission_id" and ide: "couch_id se = submission_id"
    using id by (simp_all add: sc_def se_def save_compilation_tentative_last
        save_evaluation_tentative_last)
  have c: "es_compilation_finished now conflicts es success submission_id =
             (es\<lparr>couch := (couch es)(submission_id \<mapsto> sc)\<rparr>, Inl LookupError)"
    if "no_worker_on (jd_workers (jd es)) JOB_TYPE_COMPILATION submission_id"
  proof -
    from that idc
    have "no_worker_on (jd_workers (jd (es\<lparr>couch := (couch es)(submission_id \<mapsto> sc)\<rparr>)))
            JOB_TYPE_COMPILATION (couch_id sc)"
      by simp
    from es_action_finished_no_worker[OF this] show ?thesis
      by (simp add: es_compilation_finished_def from_couch_def assms(1) sc_def[symmetric] idc)
  qed
  have e: "es_evaluation_finished now conflicts es success submission_id =
             (es\<lparr>couch := (couch es)(submission_id \<mapsto> se)\<rparr>, Inl LookupError)"
    if "no_worker_on (jd_workers (jd es)) JOB_TYPE_EVALUATION submission_id"
  proof -
    from that ide
    have "no_worker_on (jd_workers (jd (es\<lparr>couch := (couch es)(submission_id \<mapsto> se)\<rparr>)))
            JOB_TYPE_EVALUATION (couch_id se)"
      by simp
    from es_action_finished_no_worker[OF this] show ?thesis
      by (simp add: es_evaluation_finished_def from_couch_def assms(1) se_def[symmetric] ide)
  qed
  from c e show ?thesis
    by (simp add: sc_def se_def save_compilation_tentative_last save_evaluation_tentative_last)
qed

text \<open>
  The statement at \<^verbatim>\<open>compilation_finished(False, "s1")\<close> and
  \<^verbatim>\<open>evaluation_finished(False, "s1")\<close> on the server whose only worker is idle; in the
  second call the save meets one conflict, and the document refreshed has three
  evaluations counted already.
\<close>

theorem finished_without_worker_fails_after_saving_witness:
  "couch es_one_idle ''s1'' = Some submission_s1
   \<and> no_worker_on (jd_workers (jd es_one_idle)) JOB_TYPE_COMPILATION ''s1''
   \<and> no_worker_on (jd_workers (jd es_one_idle)) JOB_TYPE_EVALUATION ''s1''
   \<and> es_compilation_finished 100 [] es_one_idle False ''s1'' =
       (es_one_idle\<lparr>couch := [''s1'' \<mapsto> submission_s1\<lparr>compilation_tentatives := 1\<rparr>]\<rparr>,
        Inl LookupError)
   \<and> es_evaluation_finished 100 [submission_s1\<lparr>evaluation_tentatives := 3\<rparr>] es_one_idle
         False ''s1'' =
       (es_one_idle\<lparr>couch := [''s1'' \<mapsto> submission_s1\<lparr>evaluation_tentatives := 4\<rparr>]\<rparr>,
        Inl LookupError)"
proof -
  have s: "couch es_one_idle ''s1'' = Some submission_s1"
    by (simp add: es_one_idle_def)
  have n: "no_worker_on (jd_workers (jd es_one_idle)) kind ''s1''" for kind
    by (simp add: no_worker_on_def es_one_idle_def pool_one_idle_def)
  have i0: "\<forall>c \<in> set (submission_s1 # []). couch_id c = ''s1''"
    by (simp add: submission_s1_def)
  have i1: "\<forall>c \<in> set (submission_s1 # [submission_s1\<lparr>evaluation_tentatives := 3\<rparr>]).
              couch_id c = ''s1''"
    by (simp add: submission_s1_def)
  from finished_without_worker_fails_after_saving[OF s i0, of 100 False]
       finished_without_worker_fails_after_saving[OF s i1, of 100 False] s n
  show ?thesis
    by (simp add: es_one_idle_def submission_s1_def)
qed

section \<open>C1: the bound on the retries\<close>

text \<open>
  The scenario of the claim: one worker, compiling \<^verbatim>\<open>"s1"\<close>, and the worker reports
  failure each time; the dispatcher runs after each report.
\<close>

lemma s1_tried_sel:
  "couch_id (s1_tried k) = ''s1''" "timestamp (s1_tried k) = 10"
  "compilation_tentatives (s1_tried k) = int k" "compilation_outcome (s1_tried k) = None"
  "(s1_tried k)\<lparr>compilation_tentatives := int k + 1\<rparr> = s1_tried (Suc k)"
  by (simp_all add: s1_tried_def submission_s1_def)

text \<open>The server at the start of the scenario: \<^verbatim>\<open>add_job("s1")\<close>, then the dispatcher runs.\<close>

lemma es_compiling_0_reached:
  "es_add_job 50 es_one_idle ''s1'' = (es_requeued 0, Inr True)"
  "jd_run_iteration no_failure 100 (jd (es_requeued 0)) = (jd (es_compiling 0), Inr LOOP)"
proof -
  show "es_add_job 50 es_one_idle ''s1'' = (es_requeued 0, Inr True)"
    by (simp add: es_add_job_def from_couch_def es_one_idle_def es_requeued_def
        jd_queue_push_def jq_push_def jq_init_def heappush_Nil s1_tried_def submission_s1_def)
  have "jd (es_requeued 0) = jd_queue_push 50 (jd_init [(''localhost'', 8000)])
          (JOB_TYPE_COMPILATION, Some submission_s1) JOB_PRIORITY_HIGH None"
    by (simp add: es_requeued_def jd_queue_push_def jq_push_def jd_init_def jq_init_def
        pool_one_idle_reached heappush_Nil s1_tried_def submission_s1_def)
  moreover have "jd (es_compiling 0) = jd_compiling_s1"
    by (simp add: es_compiling_def jd_compiling_s1_def s1_tried_def submission_s1_def
        compile_s1_def)
  ultimately show "jd_run_iteration no_failure 100 (jd (es_requeued 0))
                     = (jd (es_compiling 0), Inr LOOP)"
    using jd_compiling_s1_reached by simp
qed

text \<open>
  A failed compilation is pushed again as long as the counter, after its increment,
  is at most 3: so after the first, the second and the third failure.
\<close>

lemma failed_compilation_requeued:
  assumes "k < 3"
  shows "es_compilation_finished now [] (es_compiling k) False ''s1''
           = (es_requeued (Suc k), Inr True)"
proof -
  define es1 where "es1 = (es_compiling k)\<lparr>couch := [''s1'' \<mapsto> s1_tried (Suc k)]\<rparr>"
  have f: "jd_find_worker (jd es1) (JOB_TYPE_COMPILATION, Some (s1_tried (Suc k))) = Inr 0"
    by (simp add: es1_def es_compiling_def jd_find_worker_def wp_find_worker_def
        pool_one_busy_def job_eq_def submission_eq_def s1_tried_sel)
  have r: "jd_release_worker (jd es1) 0
             = ((jd es1)\<lparr>jd_workers := pool_one_idle, touched := True\<rparr>,
                Inr (Some (JOB_PRIORITY_HIGH, 10)))"
    by (simp add: es1_def es_compiling_def jd_release_worker_def wp_release_worker_def
        pool_one_busy_def pool_one_idle_def)
  have a: "es_action_finished es1 (JOB_TYPE_COMPILATION, Some (s1_tried (Suc k)))
             = (es1\<lparr>jd := (jd es1)\<lparr>jd_workers := pool_one_idle, touched := True\<rparr>\<rparr>,
                Inr (Some (JOB_PRIORITY_HIGH, 10)))"
  proof -
    have "start_time (jd_workers (jd es1)) 0 = Some (Some 100)"
      and "address (jd_workers (jd es1)) 0 = Some (''localhost'', 8000)"
      by (simp_all add: es1_def es_compiling_def pool_one_busy_def)
    then show ?thesis
      by (simp add: es_action_finished_def f r)
  qed
  from assms have m: "\<not> int (Suc k) > MAX_COMPILATION_TENTATIVES"
    by (simp add: MAX_COMPILATION_TENTATIVES_def)
  show ?thesis
    using m
    by (simp add: es_compilation_finished_def from_couch_def es_compiling_def[of k, THEN arg_cong[of _ _ couch]]
        s1_tried_sel es1_def[symmetric] a Let_def)
       (simp add: es1_def es_compiling_def es_requeued_def jd_queue_push_def jq_push_def
         jq_init_def heappush_Nil s1_tried_sel)
qed

lemma requeued_compilation_dispatched:
  "jd_run_iteration no_failure 100 (jd (es_requeued k)) = (jd (es_compiling k), Inr LOOP)"
proof -
  define d0 where "d0 = (jd (es_requeued k))\<lparr>touched := False\<rparr>"
  define e where "e = (JOB_PRIORITY_HIGH, 10::int, JOB_TYPE_COMPILATION, Some (s1_tried k))"
  have t: "jq_top (jd_queue d0) = Inr (JOB_PRIORITY_HIGH, 10, JOB_TYPE_COMPILATION, Some (s1_tried k))"
    by (simp add: d0_def es_requeued_def jq_top_def)
  have a: "jd_check_action no_failure 100 d0 JOB_PRIORITY_HIGH 10
             (JOB_TYPE_COMPILATION, Some (s1_tried k))
           = ((jd (es_compiling k))\<lparr>jd_queue := jd_queue d0\<rparr>, Inr ACTION_OK)"
    by (simp add: d0_def es_requeued_def es_compiling_def jd_check_action_def
        pool_one_busy_reached pool_one_busy_def dispatch_rpc_def no_failure_def s1_tried_sel
        job_types_distinct Let_def compile_s1_def replicate_append_same)
  have p: "jq_pop (jd_queue ((jd (es_compiling k))\<lparr>jd_queue := jd_queue d0\<rparr>))
           = (jq_init, Inr (JOB_PRIORITY_HIGH, 10, JOB_TYPE_COMPILATION, Some (s1_tried k)))"
    by (simp add: d0_def es_requeued_def jq_pop_def heappop_def jq_init_def)
  have em: "jq_top (jd_queue (jd (es_compiling k))) = Inl LookupError"
    by (simp add: es_compiling_def jq_top_def jq_init_def)
  have "jd_process_queue no_failure 100 d0 = (jd (es_compiling k), Inr ())"
    using process_queue_ok[OF t a p] process_queue_empty[OF em, of no_failure 100]
    by (simp add: es_compiling_def)
  from jd_run_iteration_loop[OF _ _ this[unfolded d0_def]] show ?thesis
    by (simp add: es_requeued_def)
qed

text \<open>From the fourth failure on the compilation is given up: the counter is then above 3.\<close>

lemma failed_compilation_given_up:
  assumes "3 \<le> k"
  shows "es_compilation_finished now [] (es_compiling k) False ''s1''
           = (es_given_up (Suc k), Inr True)"
proof -
  define es1 where "es1 = (es_compiling k)\<lparr>couch := [''s1'' \<mapsto> s1_tried (Suc k)]\<rparr>"
  have f: "jd_find_worker (jd es1) (JOB_TYPE_COMPILATION, Some (s1_tried (Suc k))) = Inr 0"
    by (simp add: es1_def es_compiling_def jd_find_worker_def wp_find_worker_def
        pool_one_busy_def job_eq_def submission_eq_def s1_tried_sel)
  have r: "jd_release_worker (jd es1) 0
             = ((jd es1)\<lparr>jd_workers := pool_one_idle, touched := True\<rparr>,
                Inr (Some (JOB_PRIORITY_HIGH, 10)))"
    by (simp add: es1_def es_compiling_def jd_release_worker_def wp_release_worker_def
        pool_one_busy_def pool_one_idle_def)
  have a: "es_action_finished es1 (JOB_TYPE_COMPILATION, Some (s1_tried (Suc k)))
             = (es1\<lparr>jd := (jd es1)\<lparr>jd_workers := pool_one_idle, touched := True\<rparr>\<rparr>,
                Inr (Some (JOB_PRIORITY_HIGH, 10)))"
  proof -
    have "start_time (jd_workers (jd es1)) 0 = Some (Some 100)"
      and "address (jd_workers (jd es1)) 0 = Some (''localhost'', 8000)"
      by (simp_all add: es1_def es_compiling_def pool_one_busy_def)
    then show ?thesis
      by (simp add: es_action_finished_def f r)
  qed
  from assms have m: "int (Suc k) > MAX_COMPILATION_TENTATIVES"
    by (simp add: MAX_COMPILATION_TENTATIVES_def)
  show ?thesis
    using m
    by (simp add: es_compilation_finished_def from_couch_def es_compiling_def[of k, THEN arg_cong[of _ _ couch]]
        s1_tried_sel es1_def[symmetric] a Let_def)
       (simp add: es1_def es_compiling_def es_given_up_def)
qed

lemma two_failures_reached:
  "es_compilation_finished 100 [] (es_compiling 0) False ''s1'' = (es_requeued 1, Inr True)"
  "jd_run_iteration no_failure 100 (jd (es_requeued 1)) = (jd (es_compiling 1), Inr LOOP)"
  "es_compilation_finished 100 [] (es_compiling 1) False ''s1'' = (es_requeued 2, Inr True)"
  "jd_run_iteration no_failure 100 (jd (es_requeued 2)) = (jd (es_compiling 2), Inr LOOP)"
  using failed_compilation_requeued[of 0 100] failed_compilation_requeued[of 1 100]
    requeued_compilation_dispatched[of 1] requeued_compilation_dispatched[of 2]
  by (simp_all add: eval_nat_numeral)

text \<open>
  Claim C1 says that a submission is compiled at most \<^verbatim>\<open>MAX_COMPILATION_TENTATIVES\<close> = 3
  times, and that the third \<^verbatim>\<open>compilation_finished(False, "s1")\<close> logs the
  maximum-tentatives message and does not queue the compilation again. In the code
  the third failure (two tentatives counted, the third compilation running) returns
  with the compilation of \<^verbatim>\<open>"s1"\<close> queued at \<^verbatim>\<open>HIGH\<close> and nothing logged; the dispatcher
  then sends the fourth \<^verbatim>\<open>compile\<close> call to the worker.
\<close>

theorem third_failed_compilation_is_requeued:
  "es_compilation_finished 100 [] (es_compiling 2) False ''s1'' = (es_requeued 3, Inr True)
   \<and> queue (jd_queue (jd (es_requeued 3)))
       = [(JOB_PRIORITY_HIGH, 10, JOB_TYPE_COMPILATION, Some (s1_tried 3))]
   \<and> es_events (es_requeued 3) = []
   \<and> jd_run_iteration no_failure 100 (jd (es_requeued 3)) = (jd (es_compiling 3), Inr LOOP)
   \<and> rpc_log (jd (es_compiling 3)) = [compile_s1, compile_s1, compile_s1, compile_s1]"
  using failed_compilation_requeued[of 2 100] requeued_compilation_dispatched[of 3]
  by (simp add: eval_nat_numeral es_requeued_def es_compiling_def)

section \<open>C5: the timeout of a lease\<close>

lemma pool_wf_lookup:
  "pool_wf p \<Longrightarrow> map_of (workers p) w = Some slot \<Longrightarrow> worker_ok p w slot"
  by (auto simp: pool_wf_def list_all_iff dest: map_of_SomeD)

lemma pool_wf_key:
  "pool_wf p \<Longrightarrow> w \<in> set (map fst (workers p)) \<Longrightarrow> \<exists>slot. map_of (workers p) w = Some slot"
  by (metis list.set_map map_of_eq_None_iff not_Some_eq)

text \<open>Setting the flag and releasing a busy worker gives \<open>expire\<close>, with no new permit.\<close>

lemma release_scheduled:
  assumes "map_of (workers p) w = Some (Job job)" "side_data p w = Some sd"
  shows "wp_release_worker (p\<lparr>schedule_disabling := (schedule_disabling p)(w \<mapsto> True)\<rparr>) w
           = (expire w p, Inr sd)"
  using assms by (simp add: wp_release_worker_def expire_def)

lemma expire_other:
  "w' \<noteq> w \<Longrightarrow> start_time (expire w p) w' = start_time p w'"
  "w' \<noteq> w \<Longrightarrow> side_data (expire w p) w' = side_data p w'"
  "w' \<noteq> w \<Longrightarrow> schedule_disabling (expire w p) w' = schedule_disabling p w'"
  "w' \<noteq> w \<Longrightarrow> map_of (workers (expire w p)) w' = map_of (workers p) w'"
  "address (expire w p) = address p" "error_count (expire w p) = error_count p"
  "wp_semaphore (expire w p) = wp_semaphore p"
  "map_of (workers p) w \<noteq> None \<Longrightarrow> map fst (workers (expire w p)) = map fst (workers p)"
  by (auto simp: expire_def update_conv' update_keys map_of_eq_None_iff)

lemma expire_same:
  "start_time (expire w p) w = Some None" "side_data (expire w p) w = Some None"
  "schedule_disabling (expire w p) w = Some False"
  "map_of (workers (expire w p)) w = Some WORKER_DISABLED"
  by (simp_all add: expire_def update_conv')

lemma expire_other_derived:
  assumes "w' \<noteq> w"
  shows "leased_too_long worker_timeout now (expire w p) w' = leased_too_long worker_timeout now p w'"
    and "lost_entry (expire w p) w' = lost_entry p w'"
    and "worker_ok (expire w p) w' slot = worker_ok p w' slot"
  using assms
  by (simp_all add: leased_too_long_def lost_entry_def worker_ok_def expire_other
      cong: option.case_cong worker_slot.case_cong)

text \<open>
  The loop, from any point on: the workers left to visit are known to the pool and
  in order, and what the loop has done so far is carried in the arguments.
\<close>

lemma check_timeout_loop_result:
  assumes "distinct ws"
      and "\<forall>w \<in> set ws. \<exists>slot. map_of (workers p) w = Some slot \<and> worker_ok p w slot"
  shows "check_timeout_loop worker_timeout now ws p lost_jobs calls =
           (fold expire (filter (leased_too_long worker_timeout now p) ws) p,
            calls @ map (\<lambda>w. RPC_shut_down (the (address p w)))
                        (filter (leased_too_long worker_timeout now p) ws),
            Inr (lost_jobs @ map (\<lambda>w. the (lost_entry p w))
                                 (filter (leased_too_long worker_timeout now p) ws)))"
  using assms
proof (induction ws arbitrary: p lost_jobs calls)
  case Nil
  show ?case by simp
next
  case (Cons w ws)
  from Cons.prems obtain slot where slot: "map_of (workers p) w = Some slot" "worker_ok p w slot"
    by auto
  from Cons.prems have rest: "distinct ws" "w \<notin> set ws" by auto
  show ?case
  proof (cases "leased_too_long worker_timeout now p w")
    case False
    from Cons.prems rest have
      "\<forall>w \<in> set ws. \<exists>slot. map_of (workers p) w = Some slot \<and> worker_ok p w slot"
      by simp
    from Cons.IH[OF rest(1) this] False slot show ?thesis
      by (auto simp: leased_too_long_def worker_ok_def split: option.splits if_splits)
  next
    case True
    then obtain st where st: "start_time p w = Some (Some st)" "now - st > worker_timeout"
      by (auto simp: leased_too_long_def split: option.splits)
    with slot obtain job priority ts hp where
      busy: "slot = Job job" "side_data p w = Some (Some (priority, ts))" "address p w = Some hp"
      by (cases slot) (auto simp: worker_ok_def split: option.splits)
    have le: "lost_entry p w = Some (priority, ts, job)"
      using slot busy by (simp add: lost_entry_def)
    have rel: "wp_release_worker (p\<lparr>schedule_disabling := (schedule_disabling p)(w \<mapsto> True)\<rparr>) w
                 = (expire w p, Inr (Some (priority, ts)))"
      using release_scheduled slot busy by simp
    have step: "check_timeout_loop worker_timeout now (w # ws) p lost_jobs calls =
                 check_timeout_loop worker_timeout now ws (expire w p)
                   (lost_jobs @ [(priority, ts, job)]) (calls @ [RPC_shut_down hp])"
      using st slot busy rel by (simp add: Let_def)
    have ok': "\<forall>w' \<in> set ws. \<exists>slot. map_of (workers (expire w p)) w' = Some slot
                 \<and> worker_ok (expire w p) w' slot"
    proof
      fix w' assume w': "w' \<in> set ws"
      with rest have ne: "w' \<noteq> w" by auto
      from Cons.prems w' obtain s' where "map_of (workers p) w' = Some s'" "worker_ok p w' s'"
        by auto
      with ne show "\<exists>slot. map_of (workers (expire w p)) w' = Some slot
                      \<and> worker_ok (expire w p) w' slot"
        by (simp add: expire_other expire_other_derived)
    qed
    have ne: "x \<noteq> w" if "x \<in> set ws" for x
      using that rest by auto
    have same: "filter (leased_too_long worker_timeout now (expire w p)) ws
                  = filter (leased_too_long worker_timeout now p) ws"
      by (intro filter_cong) (simp_all add: expire_other_derived ne)
    have maps: "map (\<lambda>w'. RPC_shut_down (the (address (expire w p) w'))) xs
                  = map (\<lambda>w'. RPC_shut_down (the (address p w'))) xs" for xs
      by (simp add: expire_other)
    have mapl: "map (\<lambda>w'. the (lost_entry (expire w p) w'))
                    (filter (leased_too_long worker_timeout now p) ws)
                  = map (\<lambda>w'. the (lost_entry p w'))
                        (filter (leased_too_long worker_timeout now p) ws)"
      by (intro map_cong) (simp_all add: expire_other_derived ne)
    from Cons.IH[OF rest(1) ok'] step True le busy show ?thesis
      by (simp add: same maps mapl)
  qed
qed

text \<open>What a sequence of expiries leaves behind.\<close>

lemma fold_expire_other:
  "w \<notin> set ws \<Longrightarrow>
     start_time (fold expire ws p) w = start_time p w
   \<and> side_data (fold expire ws p) w = side_data p w
   \<and> schedule_disabling (fold expire ws p) w = schedule_disabling p w
   \<and> map_of (workers (fold expire ws p)) w = map_of (workers p) w"
  by (induction ws arbitrary: p) (auto simp: expire_other)

lemma fold_expire_frame:
  "address (fold expire ws p) = address p \<and> error_count (fold expire ws p) = error_count p
   \<and> wp_semaphore (fold expire ws p) = wp_semaphore p"
  by (induction ws arbitrary: p) (auto simp: expire_other)

lemma fold_expire_keys:
  "\<forall>w \<in> set ws. map_of (workers p) w \<noteq> None \<Longrightarrow>
   map fst (workers (fold expire ws p)) = map fst (workers p)"
proof (induction ws arbitrary: p)
  case Nil
  show ?case by simp
next
  case (Cons w ws)
  then have k: "map fst (workers (expire w p)) = map fst (workers p)"
    by (simp add: expire_other)
  have "\<forall>w' \<in> set ws. map_of (workers (expire w p)) w' \<noteq> None"
  proof
    fix w' assume "w' \<in> set ws"
    with Cons.prems have "w' \<in> fst ` set (workers p)"
      by (auto simp: map_of_eq_None_iff)
    then have "w' \<in> fst ` set (workers (expire w p))"
      using k by (metis list.set_map)
    then show "map_of (workers (expire w p)) w' \<noteq> None"
      by (simp add: map_of_eq_None_iff)
  qed
  from Cons.IH[OF this] k show ?case by simp
qed

lemma fold_expire_same:
  "distinct ws \<Longrightarrow> w \<in> set ws \<Longrightarrow>
     start_time (fold expire ws p) w = Some None
   \<and> side_data (fold expire ws p) w = Some None
   \<and> schedule_disabling (fold expire ws p) w = Some False
   \<and> map_of (workers (fold expire ws p)) w = Some WORKER_DISABLED"
proof (induction ws arbitrary: p)
  case Nil
  then show ?case by simp
next
  case (Cons a ws)
  show ?case
  proof (cases "w = a")
    case True
    with Cons.prems have "w \<notin> set ws" by simp
    from fold_expire_other[OF this, of "expire a p"] True show ?thesis
      by (simp add: expire_same)
  next
    case False
    with Cons show ?thesis by simp
  qed
qed

lemma expired_worker_has_entry:
  assumes "pool_wf p" "map_of (workers p) w = Some slot" "leased_too_long worker_timeout now p w"
  shows "\<exists>e hp. lost_entry p w = Some e \<and> address p w = Some hp"
proof -
  from pool_wf_lookup[OF assms(1,2)] assms(3) show ?thesis
    by (cases slot)
       (auto simp: worker_ok_def leased_too_long_def lost_entry_def assms(2)
             split: option.splits)
qed

text \<open>
  Claim C5: on a pool as described by \<open>pool_wf\<close>, \<^verbatim>\<open>check_timeout()\<close> returns, in the
  order of the workers, the entry \<^verbatim>\<open>(priority, timestamp, job)\<close> of every worker leased
  for longer than the timeout, built from its side data and its job, and has tried one
  \<^verbatim>\<open>shut_down\<close> call to the address of each. Those workers end disabled, without
  start time, side data or scheduled disabling; the semaphore has not moved; every
  other worker, and the addresses and error counts of all, are as before.
\<close>

theorem check_timeout_expires_long_leases:
  assumes "pool_wf p"
      and "wp_check_timeout worker_timeout now p = (p', calls, r)"
      and "expired = filter (leased_too_long worker_timeout now p) (map fst (workers p))"
  shows "(\<exists>lost_jobs. r = Inr lost_jobs \<and> map Some lost_jobs = map (lost_entry p) expired)
       \<and> map Some calls = map (\<lambda>w. map_option RPC_shut_down (address p w)) expired
       \<and> wp_semaphore p' = wp_semaphore p
       \<and> map fst (workers p') = map fst (workers p)
       \<and> address p' = address p \<and> error_count p' = error_count p
       \<and> (\<forall>w \<in> set expired.
             map_of (workers p') w = Some WORKER_DISABLED \<and> start_time p' w = Some None
           \<and> side_data p' w = Some None \<and> schedule_disabling p' w = Some False)
       \<and> (\<forall>w. w \<notin> set expired \<longrightarrow>
             map_of (workers p') w = map_of (workers p) w \<and> start_time p' w = start_time p w
           \<and> side_data p' w = side_data p w
           \<and> schedule_disabling p' w = schedule_disabling p w)"
proof -
  have d: "distinct (map fst (workers p))"
    using assms(1) by (simp add: pool_wf_def)
  have ok: "\<forall>w \<in> set (map fst (workers p)).
              \<exists>slot. map_of (workers p) w = Some slot \<and> worker_ok p w slot"
    using assms(1) pool_wf_key pool_wf_lookup by blast
  from check_timeout_loop_result[OF d ok, of worker_timeout now "[]" "[]"] assms(2,3)
  have p': "p' = fold expire expired p"
    and calls: "calls = map (\<lambda>w. RPC_shut_down (the (address p w))) expired"
    and r: "r = Inr (map (\<lambda>w. the (lost_entry p w)) expired)"
    by (simp_all add: wp_check_timeout_def)
  have ex: "\<exists>e hp. lost_entry p w = Some e \<and> address p w = Some hp" if "w \<in> set expired" for w
  proof -
    from that assms(3) have "w \<in> set (map fst (workers p))"
      and l: "leased_too_long worker_timeout now p w" by auto
    with ok obtain slot where "map_of (workers p) w = Some slot" by blast
    from expired_worker_has_entry[OF assms(1) this l] show ?thesis .
  qed
  have "Some (the (lost_entry p w)) = lost_entry p w" if "w \<in> set expired" for w
    using ex[OF that] by auto
  then have 1: "\<exists>lost_jobs. r = Inr lost_jobs \<and> map Some lost_jobs = map (lost_entry p) expired"
    using r by (simp add: comp_def)
  have "Some (RPC_shut_down (the (address p w))) = map_option RPC_shut_down (address p w)"
    if "w \<in> set expired" for w
    using ex[OF that] by auto
  then have 2: "map Some calls = map (\<lambda>w. map_option RPC_shut_down (address p w)) expired"
    using calls by (simp add: comp_def)
  have dx: "distinct expired"
    using d assms(3) by simp
  have kx: "\<forall>w \<in> set expired. map_of (workers p) w \<noteq> None"
    using ok assms(3) by auto
  have 3: "\<forall>w \<in> set expired.
             map_of (workers p') w = Some WORKER_DISABLED \<and> start_time p' w = Some None
           \<and> side_data p' w = Some None \<and> schedule_disabling p' w = Some False"
    using fold_expire_same[OF dx] p' by simp
  have 4: "\<forall>w. w \<notin> set expired \<longrightarrow>
             map_of (workers p') w = map_of (workers p) w \<and> start_time p' w = start_time p w
           \<and> side_data p' w = side_data p w
           \<and> schedule_disabling p' w = schedule_disabling p w"
    using fold_expire_other p' by simp
  from 1 2 3 4 fold_expire_frame[of expired p] fold_expire_keys[OF kx] p'
  show ?thesis by simp
qed

text \<open>
  The statement with the two busy workers of \<open>pool_two_busy\<close>, a timeout of 300 and the
  time 1000: worker 0 has lost its lease, worker 1 has not.
\<close>

theorem check_timeout_expires_long_leases_witness:
  "pool_wf pool_two_busy
   \<and> filter (leased_too_long 300 1000 pool_two_busy) (map fst (workers pool_two_busy)) = [0]
   \<and> wp_check_timeout 300 1000 pool_two_busy
       = (expire 0 pool_two_busy, [RPC_shut_down (''localhost'', 8000)],
          Inr [(JOB_PRIORITY_HIGH, 10, JOB_TYPE_COMPILATION, Some submission_s1)])
   \<and> workers (expire 0 pool_two_busy)
       = [(0, WORKER_DISABLED), (1, Job (JOB_TYPE_EVALUATION, Some submission_s2))]
   \<and> wp_semaphore (expire 0 pool_two_busy) = 0
   \<and> start_time (expire 0 pool_two_busy) 0 = Some None
   \<and> side_data (expire 0 pool_two_busy) 0 = Some None
   \<and> schedule_disabling (expire 0 pool_two_busy) 0 = Some False
   \<and> start_time (expire 0 pool_two_busy) 1 = Some (Some 900)
   \<and> side_data (expire 0 pool_two_busy) 1 = Some (Some (JOB_PRIORITY_LOW, 20))"
proof -
  have wf: "pool_wf pool_two_busy"
    by (simp add: pool_wf_def worker_ok_def pool_two_busy_def)
  have ex: "[0] = filter (leased_too_long 300 1000 pool_two_busy) (map fst (workers pool_two_busy))"
    by (simp add: leased_too_long_def pool_two_busy_def)
  have run: "wp_check_timeout 300 1000 pool_two_busy
       = (expire 0 pool_two_busy, [RPC_shut_down (''localhost'', 8000)],
          Inr [(JOB_PRIORITY_HIGH, 10, JOB_TYPE_COMPILATION, Some submission_s1)])"
    by (simp add: wp_check_timeout_def wp_release_worker_def expire_def pool_two_busy_def)
  have w: "workers (expire 0 pool_two_busy)
       = [(0, WORKER_DISABLED), (1, Job (JOB_TYPE_EVALUATION, Some submission_s2))]"
    by (simp add: expire_def pool_two_busy_def)
  have old: "start_time pool_two_busy 1 = Some (Some 900)"
            "side_data pool_two_busy 1 = Some (Some (JOB_PRIORITY_LOW, 20))"
            "wp_semaphore pool_two_busy = 0"
    by (simp_all add: pool_two_busy_def)
  from check_timeout_expires_long_leases[OF wf run ex] wf ex[symmetric] run w old
  show ?thesis by simp
qed

subsection \<open>\<open>pool_wf\<close> is kept by the operations of the pool\<close>

lemma worker_ok_frame:
  "start_time p' w = start_time p w \<Longrightarrow> side_data p' w = side_data p w \<Longrightarrow>
   address p' w = address p w \<Longrightarrow> error_count p' w = error_count p w \<Longrightarrow>
   schedule_disabling p' w = schedule_disabling p w \<Longrightarrow>
   worker_ok p' w slot = worker_ok p w slot"
  by (simp add: worker_ok_def)

lemma pool_wf_sameI:
  assumes "pool_wf p" "workers p' = workers p" "\<And>w s. worker_ok p' w s = worker_ok p w s"
  shows "pool_wf p'"
  using assms by (simp add: pool_wf_def)

lemma pool_wf_updateI:
  assumes "pool_wf p"
      and "workers p' = AList.update n slot (workers p)"
      and "worker_ok p' n slot"
      and "\<And>w s. w \<noteq> n \<Longrightarrow> worker_ok p' w s = worker_ok p w s"
  shows "pool_wf p'"
proof -
  have d: "distinct (map fst (workers p'))"
    using assms(1,2) by (simp add: pool_wf_def distinct_update)
  have "worker_ok p' w s" if "(w, s) \<in> set (workers p')" for w s
  proof (cases "w = n")
    case True
    from that d have "map_of (workers p') w = Some s" by simp
    with True assms(2) have "s = slot" by (simp add: update_conv')
    with True assms(3) show ?thesis by simp
  next
    case False
    from that d have "map_of (workers p') w = Some s" by simp
    with False assms(2) have "map_of (workers p) w = Some s" by (simp add: update_conv')
    from pool_wf_lookup[OF assms(1) this] assms(4)[OF False] show ?thesis by simp
  qed
  with d show ?thesis
    by (auto simp: pool_wf_def list_all_iff)
qed

lemma pool_wf_init: "pool_wf wp_init"
  by (simp add: pool_wf_def wp_init_def)

lemma pool_wf_add_worker:
  assumes "pool_wf p"
  shows "pool_wf (fst (wp_add_worker p n host port))"
proof (cases "map_of (workers p) n")
  case (Some s)
  with assms show ?thesis by (simp add: wp_add_worker_def)
next
  case None
  show ?thesis
    unfolding wp_add_worker_def using None
    by (simp, intro pool_wf_updateI[OF assms, where n = n and slot = WORKER_INACTIVE])
       (simp_all add: worker_ok_def)
qed

lemma pool_wf_enable_worker:
  assumes "pool_wf p"
  shows "pool_wf (fst (wp_enable_worker p n))"
proof (cases "map_of (workers p) n = Some WORKER_DISABLED")
  case False
  with assms show ?thesis by (auto simp: wp_enable_worker_def split: option.splits)
next
  case True
  from pool_wf_lookup[OF assms True] show ?thesis
    unfolding wp_enable_worker_def using True
    by (simp, intro pool_wf_updateI[OF assms, where n = n and slot = WORKER_INACTIVE])
       (simp_all add: worker_ok_def)
qed

lemma pool_wf_semaphore: "pool_wf (p\<lparr>wp_semaphore := k\<rparr>) = pool_wf p"
  by (simp add: pool_wf_def worker_ok_def)

lemma pool_wf_disable_worker:
  assumes "pool_wf p"
  shows "pool_wf (fst (wp_disable_worker p n))"
proof (cases "wp_semaphore p \<noteq> 0 \<and> map_of (workers p) n = Some WORKER_INACTIVE")
  case False
  with assms show ?thesis
    by (auto simp: wp_disable_worker_def Let_def pool_wf_semaphore split: option.splits)
next
  case True
  from pool_wf_lookup[OF assms] True have "worker_ok p n WORKER_INACTIVE" by simp
  then show ?thesis
    unfolding wp_disable_worker_def using True
    by (simp add: Let_def, intro pool_wf_updateI[OF assms, where n = n and slot = WORKER_DISABLED])
       (simp_all add: worker_ok_def)
qed

lemma pool_wf_acquire_worker:
  assumes "pool_wf p"
  shows "pool_wf (fst (wp_acquire_worker now p job blocking (Some sd)))"
proof (cases "wp_semaphore p = 0")
  case True
  with assms show ?thesis by (simp add: wp_acquire_worker_def)
next
  case False
  show ?thesis
  proof (cases "find_loop (workers p) WORKER_INACTIVE")
    case (Inl e)
    with assms False show ?thesis
      by (simp add: wp_acquire_worker_def wp_find_worker_def Let_def pool_wf_semaphore)
  next
    case (Inr w)
    from assms have "distinct (map fst (workers p))" by (simp add: pool_wf_def)
    from find_loop_inactive_Some[OF this Inr] pool_wf_lookup[OF assms]
    have "worker_ok p w WORKER_INACTIVE" by simp
    then show ?thesis
      unfolding wp_acquire_worker_def using False Inr
      by (simp add: wp_find_worker_def Let_def,
          intro pool_wf_updateI[OF assms, where n = w and slot = "Job job"])
         (simp_all add: worker_ok_def)
  qed
qed

lemma pool_wf_release_worker:
  assumes "pool_wf p"
  shows "pool_wf (fst (wp_release_worker p n))"
proof (cases "map_of (workers p) n")
  case None
  with assms show ?thesis by (simp add: wp_release_worker_def)
next
  case (Some slot)
  show ?thesis
  proof (cases slot)
    case WORKER_INACTIVE
    with Some assms show ?thesis by (simp add: wp_release_worker_def)
  next
    case WORKER_DISABLED
    with Some assms show ?thesis by (simp add: wp_release_worker_def)
  next
    case (Job j)
    from pool_wf_lookup[OF assms Some] Job
    obtain sd where ok: "side_data p n = Some (Some sd)" "schedule_disabling p n = Some False"
      "address p n \<noteq> None" "error_count p n \<noteq> None"
      by (auto simp: worker_ok_def)
    show ?thesis
      unfolding wp_release_worker_def using Some Job ok
      by (simp, intro pool_wf_updateI[OF assms, where n = n and slot = WORKER_INACTIVE])
         (simp_all add: worker_ok_def)
  qed
qed

lemma pool_wf_del_worker:
  assumes "pool_wf p"
  shows "pool_wf (fst (wp_del_worker p n))"
proof (cases "map_of (workers p) n = Some WORKER_DISABLED")
  case False
  with assms show ?thesis
    by (auto simp: wp_del_worker_def split: option.splits)
next
  case True
  from pool_wf_lookup[OF assms True]
  have "start_time p n \<noteq> None" "address p n \<noteq> None" "error_count p n \<noteq> None"
       "schedule_disabling p n \<noteq> None" "side_data p n \<noteq> None"
    by (auto simp: worker_ok_def)
  with True have eq: "fst (wp_del_worker p n) =
      p\<lparr>workers := AList.delete n (workers p), start_time := (start_time p)(n := None),
        address := (address p)(n := None), error_count := (error_count p)(n := None),
        schedule_disabling := (schedule_disabling p)(n := None),
        side_data := (side_data p)(n := None)\<rparr>"
    by (auto simp: wp_del_worker_def Let_def)
  have d: "distinct (map fst (AList.delete n (workers p)))"
    using assms by (simp add: pool_wf_def distinct_delete)
  have "worker_ok (fst (wp_del_worker p n)) w s" if "(w, s) \<in> set (AList.delete n (workers p))" for w s
  proof -
    from that d have m: "map_of (AList.delete n (workers p)) w = Some s" by simp
    then have ne: "w \<noteq> n" by (auto simp: delete_conv')
    with m have "map_of (workers p) w = Some s" by (simp add: delete_conv')
    from pool_wf_lookup[OF assms this] ne show ?thesis
      by (simp add: eq worker_ok_def)
  qed
  with d show ?thesis
    by (auto simp: pool_wf_def list_all_iff eq)
qed

lemma pool_wf_expire:
  assumes "pool_wf p" "map_of (workers p) w \<noteq> None"
  shows "pool_wf (expire w p)"
proof -
  from assms obtain slot where "map_of (workers p) w = Some slot" by auto
  from pool_wf_lookup[OF assms(1) this] show ?thesis
    by (intro pool_wf_updateI[OF assms(1), where n = w and slot = WORKER_DISABLED])
       (simp_all add: worker_ok_def expire_def)
qed

lemma pool_wf_fold_expire:
  "pool_wf p \<Longrightarrow> \<forall>w \<in> set ws. map_of (workers p) w \<noteq> None \<Longrightarrow> pool_wf (fold expire ws p)"
proof (induction ws arbitrary: p)
  case Nil
  then show ?case by simp
next
  case (Cons w ws)
  then have wf: "pool_wf (expire w p)"
    by (simp add: pool_wf_expire)
  have "\<forall>w' \<in> set ws. map_of (workers (expire w p)) w' \<noteq> None"
    using Cons.prems(2) by (auto simp: expire_def update_conv')
  from Cons.IH[OF wf this] show ?case by simp
qed

lemma pool_wf_check_timeout:
  assumes "pool_wf p"
  shows "pool_wf (fst (wp_check_timeout worker_timeout now p))"
proof -
  have d: "distinct (map fst (workers p))"
    using assms by (simp add: pool_wf_def)
  have ok: "\<forall>w \<in> set (map fst (workers p)).
              \<exists>slot. map_of (workers p) w = Some slot \<and> worker_ok p w slot"
    using assms pool_wf_key pool_wf_lookup by blast
  have "\<forall>w \<in> set (filter (leased_too_long worker_timeout now p) (map fst (workers p))).
          map_of (workers p) w \<noteq> None"
    using ok by auto
  from pool_wf_fold_expire[OF assms this]
       check_timeout_loop_result[OF d ok, of worker_timeout now "[]" "[]"]
  show ?thesis by (simp add: wp_check_timeout_def)
qed

text \<open>
  The supervisor's round on the dispatcher whose only worker compiles \<^verbatim>\<open>"s1"\<close> since
  100, with a timeout of 300 at time 1000: the worker ends disabled, a \<^verbatim>\<open>shut_down\<close>
  call has been made, and the entry is back in the queue with the priority and the
  timestamp it had.
\<close>

lemma lease_timeout_requeues_entry:
  "(case jd_check_timeout 300 1000 jd_compiling_s1 of
      (d, r) \<Rightarrow>
        r = Inr ()
        \<and> workers (jd_workers d) = [(0, WORKER_DISABLED)]
        \<and> wp_semaphore (jd_workers d) = 0
        \<and> queue (jd_queue d)
            = [(JOB_PRIORITY_HIGH, 10, JOB_TYPE_COMPILATION, Some submission_s1)]
        \<and> touched d
        \<and> rpc_log d = [RPC_compile (''localhost'', 8000) ''s1'',
                       RPC_shut_down (''localhost'', 8000)])"
  by (simp add: jd_check_timeout_def wp_check_timeout_def wp_release_worker_def
      jd_compiling_s1_def pool_one_busy_def jd_queue_push_def jq_push_def jq_init_def
      heappush_Nil)

section \<open>C6: a dispatch that fails\<close>

lemma pool_wf_error_count:
  "pool_wf p \<Longrightarrow> pool_wf (p\<lparr>error_count := (error_count p)(w \<mapsto> n)\<rparr>)"
  by (auto simp: pool_wf_def worker_ok_def list_all_iff)

text \<open>A worker that is disabled is not the one a later \<^verbatim>\<open>acquire_worker\<close> returns.\<close>

lemma acquire_worker_not_disabled:
  assumes "pool_wf p" "map_of (workers p) w = Some WORKER_DISABLED"
      and "wp_acquire_worker now p job blocking sd = (p', Inr (Some w'))"
  shows "w' \<noteq> w"
proof
  assume "w' = w"
  from assms(1) have "distinct (map fst (workers p))" by (simp add: pool_wf_def)
  from find_loop_inactive_Some[OF this acquire_worker_SomeD(2)[OF assms(3)]] \<open>w' = w\<close> assms(2)
  show False by simp
qed

text \<open>\<^verbatim>\<open>pop\<close> returns the entry that \<^verbatim>\<open>top\<close> shows.\<close>

lemma jq_pop_returns_top:
  assumes "jq_top q = Inr e" "jq_pop q = (q1, Inr x)"
  shows "x = e"
proof -
  from assms(1) have ne: "queue q \<noteq> []" and e: "e = queue q ! 0"
    by (auto simp: jq_top_def split: if_splits)
  show ?thesis
  proof (cases "butlast (queue q) = []")
    case True
    with ne have "queue q = [last (queue q)]"
      by (metis append_butlast_last_id append_Nil)
    then have "queue q ! 0 = last (queue q)"
      by (metis nth_Cons_0)
    with assms(2) True ne e show ?thesis
      by (auto simp: jq_pop_def heappop_def Let_def split: if_splits)
  next
    case False
    then have "hd (butlast (queue q)) = queue q ! 0"
      by (metis hd_conv_nth length_greater_0_conv nth_butlast)
    with assms(2) False ne e show ?thesis
      by (auto simp: jq_pop_def heappop_def Let_def split: if_splits)
  qed
qed

text \<open>
  Claim C6: the head of the queue is a compilation or an evaluation, a worker has been
  acquired for it, and the call to that worker raises. Then \<^verbatim>\<open>check_action\<close> returns
  \<^verbatim>\<open>ACTION_REQUEUE\<close>; on the way the error count of the worker went up by one, the
  release made the worker inactive and gave the side data back, and the disabling
  that followed left it disabled, with one permit less than before the acquisition.
  The queue is as it was, so the entry is still at the head with its priority and
  timestamp, and the other workers are as they were. \<^verbatim>\<open>process_queue\<close> goes round
  again from that state \<open>d'\<close>, and no acquisition in \<open>d'\<close> returns the worker that
  failed. What the loop returns is fixed in two cases. With no permit left in \<open>d'\<close> it
  returns \<open>d'\<close> itself: the entry waits at the head. With a worker acquired in \<open>d'\<close>
  whose call does not raise, that worker is another one, it holds the job with the
  entry's priority and timestamp as side data, the entry popped is the one that was
  requeued, and the loop goes on from \<open>d'\<close> with that worker busy, the call logged and
  the entry off the queue; it returns that state when the queue is then empty.
\<close>

theorem failed_dispatch_requeues_and_disables:
  assumes "pool_wf (jd_workers d)"
      and "jq_top (jd_queue d) = Inr (priority, ts, action, Some submission)"
      and "action = JOB_TYPE_COMPILATION \<or> action = JOB_TYPE_EVALUATION"
      and "wp_acquire_worker now (jd_workers d) (action, Some submission) False
             (Some (priority, ts)) = (p1, Inr (Some worker))"
      and "address (jd_workers d) worker = Some hp"
      and "list_ex raises (dispatch_rpc action hp (couch_id submission))"
      and "jd_check_action raises now d priority ts (action, Some submission) = (d', r)"
  shows "r = Inr ACTION_REQUEUE
       \<and> (\<exists>n p3. error_count (jd_workers d) worker = Some n
                \<and> error_count (jd_workers d') worker = Some (n + 1)
                \<and> wp_release_worker (p1\<lparr>error_count := (error_count p1)(worker \<mapsto> n + 1)\<rparr>) worker
                    = (p3, Inr (Some (priority, ts)))
                \<and> map_of (workers p3) worker = Some WORKER_INACTIVE
                \<and> wp_disable_worker p3 worker = (jd_workers d', Inr ()))
       \<and> map_of (workers (jd_workers d')) worker = Some WORKER_DISABLED
       \<and> wp_semaphore (jd_workers d') + 1 = wp_semaphore (jd_workers d)
       \<and> (\<forall>w. w \<noteq> worker \<longrightarrow>
              map_of (workers (jd_workers d')) w = map_of (workers (jd_workers d)) w)
       \<and> pool_wf (jd_workers d')
       \<and> rpc_log d' = rpc_log d @ dispatch_rpc action hp (couch_id submission)
       \<and> jd_queue d' = jd_queue d
       \<and> jq_top (jd_queue d') = Inr (priority, ts, action, Some submission)
       \<and> jd_process_queue raises now d = jd_process_queue raises now d'
       \<and> (\<forall>now' job' blocking sd p'' w'.
              wp_acquire_worker now' (jd_workers d') job' blocking sd = (p'', Inr (Some w'))
              \<longrightarrow> w' \<noteq> worker)
       \<and> (wp_semaphore (jd_workers d') = 0 \<longrightarrow>
              jd_process_queue raises now d = (d', Inr ()))
       \<and> (\<forall>p1' w' hp'.
              wp_acquire_worker now (jd_workers d') (action, Some submission) False
                (Some (priority, ts)) = (p1', Inr (Some w'))
              \<and> address (jd_workers d') w' = Some hp'
              \<and> \<not> list_ex raises (dispatch_rpc action hp' (couch_id submission))
              \<longrightarrow> w' \<noteq> worker
                \<and> map_of (workers p1') w' = Some (Job (action, Some submission))
                \<and> side_data p1' w' = Some (Some (priority, ts))
                \<and> (\<forall>q1 x. jq_pop (jd_queue d) = (q1, Inr x) \<longrightarrow>
                       x = (priority, ts, action, Some submission)
                     \<and> jd_process_queue raises now d
                         = jd_process_queue raises now
                             (d'\<lparr>jd_workers := p1',
                                 rpc_log := rpc_log d'
                                            @ dispatch_rpc action hp' (couch_id submission),
                                 jd_queue := q1\<rparr>)
                     \<and> (queue q1 = [] \<longrightarrow>
                          jd_process_queue raises now d
                            = (d'\<lparr>jd_workers := p1',
                                   rpc_log := rpc_log d'
                                              @ dispatch_rpc action hp' (couch_id submission),
                                   jd_queue := q1\<rparr>, Inr ()))))"
proof -
  let ?p = "jd_workers d"
  let ?job = "(action, Some submission)"
  note acq = acquire_worker_SomeD[OF assms(4)]
  from assms(1) have dist: "distinct (map fst (workers ?p))" by (simp add: pool_wf_def)
  from find_loop_inactive_Some[OF dist acq(2)]
  have inact: "map_of (workers ?p) worker = Some WORKER_INACTIVE" .
  from pool_wf_lookup[OF assms(1) inact] obtain n where
    n: "error_count ?p worker = Some n" and sched: "schedule_disabling ?p worker = Some False"
    by (auto simp: worker_ok_def)
  define p2 where "p2 = p1\<lparr>error_count := (error_count p1)(worker \<mapsto> n + 1)\<rparr>"
  define p3 where "p3 = p2\<lparr>start_time := (start_time p2)(worker \<mapsto> None),
                           side_data := (side_data p2)(worker \<mapsto> None),
                           workers := AList.update worker WORKER_INACTIVE (workers p2),
                           wp_semaphore := wp_semaphore p2 + 1\<rparr>"
  define p4 where "p4 = p3\<lparr>wp_semaphore := wp_semaphore p3 - 1,
                           workers := AList.update worker WORKER_DISABLED (workers p3)\<rparr>"
  have bomb: "action \<noteq> JOB_TYPE_BOMB"
    using assms(3) job_types_distinct by auto
  have p1_facts: "address p1 worker = Some hp" "error_count p1 worker = Some n"
    using acq(3) assms(5) n by simp_all
  have rel: "wp_release_worker p2 worker = (p3, Inr (Some (priority, ts)))"
    using sched
    by (simp add: wp_release_worker_def p2_def p3_def acq(3) update_conv')
  have sem3: "wp_semaphore p3 = wp_semaphore ?p"
    using acq(1) by (simp add: p3_def p2_def acq(3))
  have in3: "map_of (workers p3) worker = Some WORKER_INACTIVE"
    by (simp add: p3_def update_conv')
  have dis: "wp_disable_worker p3 worker = (p4, Inr ())"
    using acq(1) sem3 in3 by (simp add: wp_disable_worker_def p4_def Let_def)
  have act: "jd_check_action raises now d priority ts ?job
               = (d\<lparr>jd_workers := p4,
                     rpc_log := rpc_log d @ dispatch_rpc action hp (couch_id submission)\<rparr>,
                  Inr ACTION_REQUEUE)"
    using bomb assms(4,6) p1_facts rel dis
    by (simp add: jd_check_action_def Let_def p2_def)
  with assms(7) have d': "d' = d\<lparr>jd_workers := p4,
                                  rpc_log := rpc_log d @ dispatch_rpc action hp (couch_id submission)\<rparr>"
    and r: "r = Inr ACTION_REQUEUE" by simp_all
  have wf1: "pool_wf p1"
    using pool_wf_acquire_worker[OF assms(1), of now ?job False "(priority, ts)"] assms(4)
    by simp
  have wf2: "pool_wf p2"
    using pool_wf_error_count[OF wf1] by (simp add: p2_def)
  have wf3: "pool_wf p3"
    using pool_wf_release_worker[OF wf2, of worker] rel by simp
  have wf4: "pool_wf p4"
    using pool_wf_disable_worker[OF wf3, of worker] dis by simp
  have dis4: "map_of (workers p4) worker = Some WORKER_DISABLED"
    by (simp add: p4_def update_conv')
  have others: "\<forall>w. w \<noteq> worker \<longrightarrow> map_of (workers p4) w = map_of (workers ?p) w"
    by (simp add: p4_def p3_def p2_def acq(3) update_conv')
  have sem4: "wp_semaphore p4 + 1 = wp_semaphore ?p"
    using acq(1) sem3 by (simp add: p4_def)
  have ec4: "error_count p4 worker = Some (n + 1)"
    by (simp add: p4_def p3_def p2_def)
  have top': "jq_top (jd_queue d') = Inr (priority, ts, ?job)"
    using assms(2) by (simp add: d')
  have pq: "jd_process_queue raises now d = jd_process_queue raises now d'"
    using process_queue_requeue[OF assms(2)] act d' by simp
  have later: "\<forall>now' job' blocking sd p'' w'.
                 wp_acquire_worker now' p4 job' blocking sd = (p'', Inr (Some w'))
                 \<longrightarrow> w' \<noteq> worker"
    using acquire_worker_not_disabled[OF wf4 dis4] by blast
  have steps: "\<exists>n p3. error_count ?p worker = Some n
                \<and> error_count p4 worker = Some (n + 1)
                \<and> wp_release_worker (p1\<lparr>error_count := (error_count p1)(worker \<mapsto> n + 1)\<rparr>) worker
                    = (p3, Inr (Some (priority, ts)))
                \<and> map_of (workers p3) worker = Some WORKER_INACTIVE
                \<and> wp_disable_worker p3 worker = (p4, Inr ())"
    using n ec4 rel in3 dis unfolding p2_def by blast
  have stop: "jd_process_queue raises now d = (d', Inr ())"
    if "wp_semaphore (jd_workers d') = 0"
  proof -
    from that have "jd_check_action raises now d' priority ts ?job = (d', Inr ACTION_FAIL)"
      using bomb by (simp add: jd_check_action_def wp_acquire_worker_def)
    from process_queue_fail[OF top' this] pq show ?thesis by simp
  qed
  have retry: "w' \<noteq> worker
             \<and> map_of (workers p1') w' = Some (Job ?job)
             \<and> side_data p1' w' = Some (Some (priority, ts))
             \<and> (\<forall>q1 x. jq_pop (jd_queue d) = (q1, Inr x) \<longrightarrow>
                    x = (priority, ts, ?job)
                  \<and> jd_process_queue raises now d
                      = jd_process_queue raises now
                          (d'\<lparr>jd_workers := p1',
                              rpc_log := rpc_log d' @ dispatch_rpc action hp' (couch_id submission),
                              jd_queue := q1\<rparr>)
                  \<and> (queue q1 = [] \<longrightarrow>
                       jd_process_queue raises now d
                         = (d'\<lparr>jd_workers := p1',
                                rpc_log := rpc_log d'
                                           @ dispatch_rpc action hp' (couch_id submission),
                                jd_queue := q1\<rparr>, Inr ())))"
    if a2: "wp_acquire_worker now (jd_workers d') ?job False (Some (priority, ts))
              = (p1', Inr (Some w'))"
      and addr2: "address (jd_workers d') w' = Some hp'"
      and up: "\<not> list_ex raises (dispatch_rpc action hp' (couch_id submission))"
    for p1' w' hp'
  proof -
    note acq2 = acquire_worker_SomeD[OF a2]
    from later a2 have ne: "w' \<noteq> worker" by (simp add: d')
    have job2: "map_of (workers p1') w' = Some (Job ?job)"
      and sd2: "side_data p1' w' = Some (Some (priority, ts))"
      and addr2': "address p1' w' = Some hp'"
      using addr2 by (simp_all add: acq2(3) update_conv')
    let ?d2 = "d'\<lparr>jd_workers := p1',
                   rpc_log := rpc_log d' @ dispatch_rpc action hp' (couch_id submission)\<rparr>"
    have act2: "jd_check_action raises now d' priority ts ?job = (?d2, Inr ACTION_OK)"
      using bomb a2 addr2' up by (simp add: jd_check_action_def Let_def)
    have popped: "x = (priority, ts, ?job)
                \<and> jd_process_queue raises now d
                    = jd_process_queue raises now (?d2\<lparr>jd_queue := q1\<rparr>)
                \<and> (queue q1 = [] \<longrightarrow>
                     jd_process_queue raises now d = (?d2\<lparr>jd_queue := q1\<rparr>, Inr ()))"
      if pop: "jq_pop (jd_queue d) = (q1, Inr x)" for q1 x
    proof -
      from jq_pop_returns_top[OF assms(2) pop] have x: "x = (priority, ts, ?job)" .
      from pop have "jq_pop (jd_queue ?d2) = (q1, Inr x)" by (simp add: d')
      from process_queue_ok[OF top' act2 this] pq
      have go: "jd_process_queue raises now d
                  = jd_process_queue raises now (?d2\<lparr>jd_queue := q1\<rparr>)"
        by simp
      have "jd_process_queue raises now (?d2\<lparr>jd_queue := q1\<rparr>) = (?d2\<lparr>jd_queue := q1\<rparr>, Inr ())"
        if "queue q1 = []"
        using that process_queue_empty[of "?d2\<lparr>jd_queue := q1\<rparr>" LookupError raises now]
        by (simp add: jq_top_def)
      with x go show ?thesis by simp
    qed
    from ne job2 sd2 popped show ?thesis by blast
  qed
  have A: "r = Inr ACTION_REQUEUE
       \<and> (\<exists>n p3. error_count (jd_workers d) worker = Some n
                \<and> error_count (jd_workers d') worker = Some (n + 1)
                \<and> wp_release_worker (p1\<lparr>error_count := (error_count p1)(worker \<mapsto> n + 1)\<rparr>) worker
                    = (p3, Inr (Some (priority, ts)))
                \<and> map_of (workers p3) worker = Some WORKER_INACTIVE
                \<and> wp_disable_worker p3 worker = (jd_workers d', Inr ()))
       \<and> map_of (workers (jd_workers d')) worker = Some WORKER_DISABLED
       \<and> wp_semaphore (jd_workers d') + 1 = wp_semaphore (jd_workers d)
       \<and> (\<forall>w. w \<noteq> worker \<longrightarrow>
              map_of (workers (jd_workers d')) w = map_of (workers (jd_workers d)) w)
       \<and> pool_wf (jd_workers d')
       \<and> rpc_log d' = rpc_log d @ dispatch_rpc action hp (couch_id submission)
       \<and> jd_queue d' = jd_queue d
       \<and> jq_top (jd_queue d') = Inr (priority, ts, action, Some submission)
       \<and> jd_process_queue raises now d = jd_process_queue raises now d'
       \<and> (\<forall>now' job' blocking sd p'' w'.
              wp_acquire_worker now' (jd_workers d') job' blocking sd = (p'', Inr (Some w'))
              \<longrightarrow> w' \<noteq> worker)"
    using r steps dis4 sem4 others wf4 pq later assms(2)
    by (simp add: d')
  from stop have B: "wp_semaphore (jd_workers d') = 0 \<longrightarrow>
              jd_process_queue raises now d = (d', Inr ())"
    by blast
  from A B retry show ?thesis
    by (intro conjI allI impI; (elim conjE)?) blast+
qed

text \<open>
  The statement with the compilation of \<^verbatim>\<open>"s1"\<close> at the head of the queue, when the call
  to worker 0 raises. With the two idle workers of \<open>jd_two_idle_queued\<close>,
  \<^verbatim>\<open>process_queue\<close> ends with worker 0 disabled, worker 1 compiling \<^verbatim>\<open>"s1"\<close>, the queue
  empty and both calls logged. With worker 0 alone, it ends with worker 0 disabled and
  the entry still at the head.
\<close>

theorem failed_dispatch_requeues_and_disables_witness:
  "pool_wf (jd_workers jd_two_idle_queued)
   \<and> jq_top (jd_queue jd_two_idle_queued)
       = Inr (JOB_PRIORITY_HIGH, 10, JOB_TYPE_COMPILATION, Some submission_s1)
   \<and> snd (wp_acquire_worker 100 (jd_workers jd_two_idle_queued)
            (JOB_TYPE_COMPILATION, Some submission_s1) False (Some (JOB_PRIORITY_HIGH, 10)))
       = Inr (Some 0)
   \<and> list_ex worker_0_down
        (dispatch_rpc JOB_TYPE_COMPILATION (''localhost'', 8000) (couch_id submission_s1))
   \<and> snd (jd_check_action worker_0_down 100 jd_two_idle_queued JOB_PRIORITY_HIGH 10
            (JOB_TYPE_COMPILATION, Some submission_s1)) = Inr ACTION_REQUEUE
   \<and> workers (jd_workers (fst (jd_check_action worker_0_down 100 jd_two_idle_queued
                                  JOB_PRIORITY_HIGH 10 (JOB_TYPE_COMPILATION, Some submission_s1))))
       = [(0, WORKER_DISABLED), (1, WORKER_INACTIVE)]
   \<and> error_count (jd_workers (fst (jd_check_action worker_0_down 100 jd_two_idle_queued
                                  JOB_PRIORITY_HIGH 10 (JOB_TYPE_COMPILATION, Some submission_s1)))) 0
       = Some 1
   \<and> wp_semaphore (jd_workers (fst (jd_check_action worker_0_down 100 jd_two_idle_queued
                                  JOB_PRIORITY_HIGH 10 (JOB_TYPE_COMPILATION, Some submission_s1))))
       = 1
   \<and> jq_top (jd_queue (fst (jd_check_action worker_0_down 100 jd_two_idle_queued
                                  JOB_PRIORITY_HIGH 10 (JOB_TYPE_COMPILATION, Some submission_s1))))
       = Inr (JOB_PRIORITY_HIGH, 10, JOB_TYPE_COMPILATION, Some submission_s1)
   \<and> snd (jd_process_queue worker_0_down 100 jd_two_idle_queued) = Inr ()
   \<and> workers (jd_workers (fst (jd_process_queue worker_0_down 100 jd_two_idle_queued)))
       = [(0, WORKER_DISABLED), (1, Job (JOB_TYPE_COMPILATION, Some submission_s1))]
   \<and> side_data (jd_workers (fst (jd_process_queue worker_0_down 100 jd_two_idle_queued))) 1
       = Some (Some (JOB_PRIORITY_HIGH, 10))
   \<and> queue (jd_queue (fst (jd_process_queue worker_0_down 100 jd_two_idle_queued))) = []
   \<and> rpc_log (fst (jd_process_queue worker_0_down 100 jd_two_idle_queued))
       = [RPC_compile (''localhost'', 8000) ''s1'', RPC_compile (''localhost'', 8001) ''s1'']
   \<and> jd_process_queue worker_0_down 100 (jd_two_idle_queued\<lparr>jd_workers := pool_one_idle\<rparr>)
       = (fst (jd_check_action worker_0_down 100
                 (jd_two_idle_queued\<lparr>jd_workers := pool_one_idle\<rparr>) JOB_PRIORITY_HIGH 10
                 (JOB_TYPE_COMPILATION, Some submission_s1)), Inr ())
   \<and> workers (jd_workers (fst (jd_process_queue worker_0_down 100
                                  (jd_two_idle_queued\<lparr>jd_workers := pool_one_idle\<rparr>))))
       = [(0, WORKER_DISABLED)]
   \<and> jq_top (jd_queue (fst (jd_process_queue worker_0_down 100
                                  (jd_two_idle_queued\<lparr>jd_workers := pool_one_idle\<rparr>))))
       = Inr (JOB_PRIORITY_HIGH, 10, JOB_TYPE_COMPILATION, Some submission_s1)
   \<and> rpc_log (fst (jd_process_queue worker_0_down 100
                      (jd_two_idle_queued\<lparr>jd_workers := pool_one_idle\<rparr>)))
       = [RPC_compile (''localhost'', 8000) ''s1'']"
proof -
  let ?d = jd_two_idle_queued
  let ?job = "(JOB_TYPE_COMPILATION, Some submission_s1)"
  let ?res = "jd_check_action worker_0_down 100 ?d JOB_PRIORITY_HIGH 10 ?job"
  let ?acq = "wp_acquire_worker 100 (jd_workers ?d) ?job False (Some (JOB_PRIORITY_HIGH, 10))"
  have wf: "pool_wf (jd_workers ?d)"
    by (simp add: pool_wf_def worker_ok_def jd_two_idle_queued_def pool_two_idle_def)
  have top: "jq_top (jd_queue ?d) = Inr (JOB_PRIORITY_HIGH, 10, JOB_TYPE_COMPILATION, Some submission_s1)"
    by (simp add: jq_top_def jd_two_idle_queued_def)
  have acq: "?acq = (fst ?acq, Inr (Some 0))"
    by (simp add: wp_acquire_worker_def wp_find_worker_def jd_two_idle_queued_def
        pool_two_idle_def)
  have addr: "address (jd_workers ?d) 0 = Some (''localhost'', 8000)"
    by (simp add: jd_two_idle_queued_def pool_two_idle_def)
  have down: "list_ex worker_0_down
                (dispatch_rpc JOB_TYPE_COMPILATION (''localhost'', 8000) (couch_id submission_s1))"
    by (simp add: dispatch_rpc_def worker_0_down_def couch_id_s1)
  have res: "?res = (fst ?res, snd ?res)" by simp
  have old: "workers (jd_workers ?d) = [(0, WORKER_INACTIVE), (1, WORKER_INACTIVE)]"
    "error_count (jd_workers ?d) 0 = Some 0" "wp_semaphore (jd_workers ?d) = 2"
    "rpc_log ?d = []"
    by (simp_all add: jd_two_idle_queued_def pool_two_idle_def)
  have kind: "JOB_TYPE_COMPILATION = JOB_TYPE_COMPILATION \<or> JOB_TYPE_COMPILATION = JOB_TYPE_EVALUATION"
    by simp
  note inst = failed_dispatch_requeues_and_disables[OF wf top kind acq addr down res]
  have acq_snd: "snd ?acq = Inr (Some 0)"
    using acq by (metis snd_conv)
  have keys: "workers (jd_workers (fst ?res)) = [(0, WORKER_DISABLED), (1, WORKER_INACTIVE)]"
    by (simp add: jd_check_action_def wp_acquire_worker_def wp_find_worker_def
        wp_release_worker_def wp_disable_worker_def dispatch_rpc_def worker_0_down_def
        jd_two_idle_queued_def pool_two_idle_def couch_id_s1 job_types_distinct Let_def)
  from inst have r: "snd ?res = Inr ACTION_REQUEUE"
    by (elim conjE)
  from inst old(2) have ec: "error_count (jd_workers (fst ?res)) 0 = Some 1"
    by (elim conjE exE) simp
  from inst old(3) have sem: "wp_semaphore (jd_workers (fst ?res)) = 1"
    by (elim conjE) simp
  from inst have top': "jq_top (jd_queue (fst ?res))
      = Inr (JOB_PRIORITY_HIGH, 10, JOB_TYPE_COMPILATION, Some submission_s1)"
    by (elim conjE)
  from inst old(4) have log: "rpc_log (fst ?res) = [RPC_compile (''localhost'', 8000) ''s1'']"
    by (elim conjE) (simp add: dispatch_rpc_def couch_id_s1)
  from inst old(1) have one: "map_of (workers (jd_workers (fst ?res))) 1 = Some WORKER_INACTIVE"
    by (elim conjE) simp
  let ?acq2 = "wp_acquire_worker 100 (jd_workers (fst ?res)) ?job False
                 (Some (JOB_PRIORITY_HIGH, 10))"
  have acq2: "?acq2 = (fst ?acq2, Inr (Some 1))"
    using keys sem by (simp add: wp_acquire_worker_def wp_find_worker_def)
  have w2: "workers (fst ?acq2)
              = [(0, WORKER_DISABLED), (1, Job (JOB_TYPE_COMPILATION, Some submission_s1))]"
    using keys sem by (simp add: wp_acquire_worker_def wp_find_worker_def)
  have addr2: "address (jd_workers (fst ?res)) 1 = Some (''localhost'', 8001)"
    by (simp add: jd_check_action_def wp_acquire_worker_def wp_find_worker_def
        wp_release_worker_def wp_disable_worker_def dispatch_rpc_def worker_0_down_def
        jd_two_idle_queued_def pool_two_idle_def couch_id_s1 job_types_distinct Let_def)
  have up: "\<not> list_ex worker_0_down
                (dispatch_rpc JOB_TYPE_COMPILATION (''localhost'', 8001) (couch_id submission_s1))"
    by (simp add: dispatch_rpc_def worker_0_down_def couch_id_s1)
  have pop: "jq_pop (jd_queue ?d)
               = (\<lparr>queue = [], jq_semaphore = 0\<rparr>,
                  Inr (JOB_PRIORITY_HIGH, 10, JOB_TYPE_COMPILATION, Some submission_s1))"
    by (simp add: jq_pop_def heappop_def jd_two_idle_queued_def)
  note retry = inst[THEN conjunct2, THEN conjunct2, THEN conjunct2, THEN conjunct2,
      THEN conjunct2, THEN conjunct2, THEN conjunct2, THEN conjunct2, THEN conjunct2,
      THEN conjunct2, THEN conjunct2, THEN conjunct2, rule_format,
      OF conjI[OF acq2 conjI[OF addr2 up]]]
  from retry have sd2: "side_data (fst ?acq2) 1 = Some (Some (JOB_PRIORITY_HIGH, 10))"
    by (elim conjE)
  note popped = retry[THEN conjunct2, THEN conjunct2, THEN conjunct2, rule_format, OF pop]
  from popped
  have done2: "jd_process_queue worker_0_down 100 ?d
         = ((fst ?res)\<lparr>jd_workers := fst ?acq2,
                        rpc_log := rpc_log (fst ?res)
                           @ dispatch_rpc JOB_TYPE_COMPILATION (''localhost'', 8001)
                               (couch_id submission_s1),
                        jd_queue := \<lparr>queue = [], jq_semaphore = 0\<rparr>\<rparr>, Inr ())"
    by (elim conjE) simp
  have two: "snd (jd_process_queue worker_0_down 100 ?d) = Inr ()"
    "workers (jd_workers (fst (jd_process_queue worker_0_down 100 ?d)))
       = [(0, WORKER_DISABLED), (1, Job (JOB_TYPE_COMPILATION, Some submission_s1))]"
    "side_data (jd_workers (fst (jd_process_queue worker_0_down 100 ?d))) 1
       = Some (Some (JOB_PRIORITY_HIGH, 10))"
    "queue (jd_queue (fst (jd_process_queue worker_0_down 100 ?d))) = []"
    "rpc_log (fst (jd_process_queue worker_0_down 100 ?d))
       = [RPC_compile (''localhost'', 8000) ''s1'', RPC_compile (''localhost'', 8001) ''s1'']"
    by (simp_all add: done2 w2 sd2 log dispatch_rpc_def couch_id_s1)

  let ?e = "jd_two_idle_queued\<lparr>jd_workers := pool_one_idle\<rparr>"
  let ?res1 = "jd_check_action worker_0_down 100 ?e JOB_PRIORITY_HIGH 10 ?job"
  let ?acq1 = "wp_acquire_worker 100 (jd_workers ?e) ?job False (Some (JOB_PRIORITY_HIGH, 10))"
  have wf1: "pool_wf (jd_workers ?e)"
    by (simp add: pool_wf_def worker_ok_def pool_one_idle_def)
  have top1: "jq_top (jd_queue ?e)
                = Inr (JOB_PRIORITY_HIGH, 10, JOB_TYPE_COMPILATION, Some submission_s1)"
    by (simp add: jq_top_def jd_two_idle_queued_def)
  have acq1: "?acq1 = (fst ?acq1, Inr (Some 0))"
    by (simp add: wp_acquire_worker_def wp_find_worker_def pool_one_idle_def)
  have addr1: "address (jd_workers ?e) 0 = Some (''localhost'', 8000)"
    by (simp add: pool_one_idle_def)
  have res1: "?res1 = (fst ?res1, snd ?res1)" by simp
  have old1: "wp_semaphore (jd_workers ?e) = 1" "rpc_log ?e = []"
    by (simp_all add: jd_two_idle_queued_def pool_one_idle_def)
  note inst1 = failed_dispatch_requeues_and_disables[OF wf1 top1 kind acq1 addr1 down res1]
  from inst1 old1(1) have sem1: "wp_semaphore (jd_workers (fst ?res1)) = 0"
    by (elim conjE) simp
  note stop = inst1[THEN conjunct2, THEN conjunct2, THEN conjunct2, THEN conjunct2,
      THEN conjunct2, THEN conjunct2, THEN conjunct2, THEN conjunct2, THEN conjunct2,
      THEN conjunct2, THEN conjunct2, THEN conjunct1, rule_format, OF sem1]
  have keys1: "workers (jd_workers (fst ?res1)) = [(0, WORKER_DISABLED)]"
    by (simp add: jd_check_action_def wp_acquire_worker_def wp_find_worker_def
        wp_release_worker_def wp_disable_worker_def dispatch_rpc_def worker_0_down_def
        jd_two_idle_queued_def pool_one_idle_def couch_id_s1 job_types_distinct Let_def)
  from inst1 have top1': "jq_top (jd_queue (fst ?res1))
      = Inr (JOB_PRIORITY_HIGH, 10, JOB_TYPE_COMPILATION, Some submission_s1)"
    by (elim conjE)
  from inst1 old1(2) have log1: "rpc_log (fst ?res1) = [RPC_compile (''localhost'', 8000) ''s1'']"
    by (elim conjE) (simp add: dispatch_rpc_def couch_id_s1)
  have single: "jd_process_queue worker_0_down 100 ?e = (fst ?res1, Inr ())"
    "workers (jd_workers (fst (jd_process_queue worker_0_down 100 ?e))) = [(0, WORKER_DISABLED)]"
    "jq_top (jd_queue (fst (jd_process_queue worker_0_down 100 ?e)))
       = Inr (JOB_PRIORITY_HIGH, 10, JOB_TYPE_COMPILATION, Some submission_s1)"
    "rpc_log (fst (jd_process_queue worker_0_down 100 ?e))
       = [RPC_compile (''localhost'', 8000) ''s1'']"
    by (simp_all add: stop keys1 top1' log1)
  from wf top acq_snd down r keys ec sem top' two single show ?thesis
    by simp
qed

text \<open>
  The whole of \<^verbatim>\<open>process_queue\<close> on that state: after the failure at worker 0 the loop
  takes the same entry again and dispatches it to worker 1.
\<close>

lemma worker_crash_retried_on_other_worker:
  "(case jd_process_queue worker_0_down 100 jd_two_idle_queued of
      (d, r) \<Rightarrow>
        r = Inr ()
        \<and> workers (jd_workers d)
            = [(0, WORKER_DISABLED), (1, Job (JOB_TYPE_COMPILATION, Some submission_s1))]
        \<and> error_count (jd_workers d) 0 = Some 1
        \<and> side_data (jd_workers d) 1 = Some (Some (JOB_PRIORITY_HIGH, 10))
        \<and> queue (jd_queue d) = []
        \<and> rpc_log d = [RPC_compile (''localhost'', 8000) ''s1'',
                       RPC_compile (''localhost'', 8001) ''s1''])"
  apply (subst jd_process_queue.simps)
  apply (simp add: jq_top_def jd_check_action_def wp_acquire_worker_def wp_find_worker_def
        wp_release_worker_def wp_disable_worker_def dispatch_rpc_def worker_0_down_def
        jd_two_idle_queued_def pool_two_idle_def couch_id_s1 job_types_distinct Let_def)
  apply (subst jd_process_queue.simps)
  apply (simp add: jq_top_def jd_check_action_def wp_acquire_worker_def wp_find_worker_def
        dispatch_rpc_def worker_0_down_def couch_id_s1 job_types_distinct Let_def
        jq_pop_def heappop_def)
  apply (subst jd_process_queue.simps)
  apply (simp add: jq_top_def)
  done

end
